theory Spec2Isabelle
  imports Main
begin

section \<open>The install-plugin command\<close>

text \<open>
  A shallow embedding of \<^verbatim>\<open>command/common/install_plugin_command.go\<close>.
  The command is written against three interfaces (its actor, its user interface and its
  configuration) and a handful of functions of other packages. None of them is defined
  in the file: each one is a parameter of the model, so every theorem below holds for
  any implementation of them. What the file itself does (the order of the calls, the
  error it returns, the deferred removal of the temporary file) is modelled line by line.
\<close>

subsection \<open>Errors\<close>

text \<open>
  The error values the file constructs itself, by their Go type and fields, and
  \<open>OtherError\<close> for any error value a collaborator hands back.
\<close>

datatype error =
    RequiredArgumentError string
  | FileNotFoundError string
  | PluginInstallationCancelled
  | UnsupportedURLSchemeError string
  | PluginAlreadyInstalledError string string string
  | PluginInvalidError string
  | OtherError string

text \<open>
  A Go function either returns or panics. The only panic the file can raise by itself is
  the method call on the nil \<^verbatim>\<open>os.FileInfo\<close> in the download branch.
\<close>

datatype 'a outcome = Returned 'a | Panicked

subsection \<open>Data\<close>

record PluginVersion =
  Major :: int
  Minor :: int
  Build :: int

text \<open>Of \<^verbatim>\<open>configv3.Plugin\<close> the file reads the name and the version only.\<close>

record Plugin =
  Name :: string
  Version :: PluginVersion

datatype PluginPathType = PluginFilePath | PluginHTTPPath | PluginUnsupportedPathType

datatype RPCService = RPCService nat

type_synonym CommandList = "string list"

text \<open>
  The part of the machine the collaborators act on: the files on disk (a path mapped to
  its size in bytes, which is all \<^verbatim>\<open>os.Stat\<close> is asked for), the paths the operating
  system refuses to remove (a directory that is not writable, a file in use) and the
  plugin registry.
\<close>

record world =
  files :: "string \<rightharpoonup> int"
  protected :: "string set"
  plugins :: "string \<rightharpoonup> Plugin"

text \<open>The values of a \<^verbatim>\<open>map[string]interface{}\<close> handed to a text template.\<close>

datatype tval = TString string | TInt int

text \<open>
  Every call that leaves the file is recorded, in order. The collaborators receive the
  \<open>world\<close> only, so the record of calls is written by the command alone.
\<close>

datatype event =
    E_oldCmd_Main
  | E_DeterminePathType string
  | E_FileExists string
  | E_DisplayHeader string
  | E_DisplayBoolPrompt string "(string \<times> tval) list"
  | E_DisplayText string "(string \<times> tval) list"
  | E_DisplayTextWithFlavor string "(string \<times> tval) list"
  | E_DisplayOK
  | E_CreateExecutableCopy string
  | E_FetchPluginFromURL string
  | E_Stat string
  | E_NewRPCService
  | E_GetAndValidatePlugin string
  | E_IsPluginInstalled string
  | E_UninstallPlugin string
  | E_InstallPluginFromPath string string
  | E_Remove string

record run =
  env :: world
  trace :: "event list"

definition emit :: "event \<Rightarrow> run \<Rightarrow> run" where
  "emit e s = s\<lparr>trace := trace s @ [e]\<rparr>"

subsection \<open>The interfaces\<close>

text \<open>
  \<^verbatim>\<open>InstallPluginActor\<close>, method by method. A Go result \<^verbatim>\<open>(T, error)\<close> is a pair
  with an \<open>error option\<close>; \<open>None\<close> is \<^verbatim>\<open>nil\<close>. The two methods that return a
  \<^verbatim>\<open>bool\<close> only are read-only.
\<close>

record InstallPluginActor =
  CreateExecutableCopy :: "string \<Rightarrow> world \<Rightarrow> (string \<times> error option) \<times> world"
  FetchPluginFromURL :: "string \<Rightarrow> world \<Rightarrow> (string \<times> error option) \<times> world"
  FileExists :: "string \<Rightarrow> world \<Rightarrow> bool"
  GetAndValidatePlugin ::
    "RPCService \<Rightarrow> CommandList \<Rightarrow> string \<Rightarrow> world \<Rightarrow> (Plugin \<times> error option) \<times> world"
  InstallPluginFromPath :: "string \<Rightarrow> Plugin \<Rightarrow> world \<Rightarrow> error option \<times> world"
  IsPluginInstalled :: "string \<Rightarrow> world \<Rightarrow> bool"
  UninstallPlugin :: "RPCService \<Rightarrow> string \<Rightarrow> world \<Rightarrow> error option \<times> world"

text \<open>
  Of \<^verbatim>\<open>command.UI\<close> only the prompt returns something: the user's answer. The display
  methods are recorded in the trace.
\<close>

record command_UI =
  DisplayBoolPrompt :: "bool \<Rightarrow> string \<Rightarrow> (string \<times> tval) list \<Rightarrow> world \<Rightarrow> bool \<times> error option"

record command_Config =
  Experimental :: bool

record InstallPluginArgs =
  PathURLOrPluginName :: string

record InstallPluginCommand =
  OptionalArgs :: InstallPluginArgs
  Force :: bool
  RegisteredRepository :: string
  UI :: command_UI
  Config :: command_Config
  Actor :: InstallPluginActor

text \<open>
  The functions and values of other packages that the file calls:
  \<^verbatim>\<open>util.DeterminePathType\<close>, \<^verbatim>\<open>shared.NewRPCService\<close>, \<^verbatim>\<open>shared.HandleError\<close>,
  \<^verbatim>\<open>oldCmd.Main\<close>, the package variable \<^verbatim>\<open>Commands\<close> and the \<^verbatim>\<open>String\<close> method
  of a plugin version.
\<close>

record packages =
  DeterminePathType :: "string \<Rightarrow> world \<Rightarrow> PluginPathType"
  NewRPCService :: "world \<Rightarrow> (RPCService \<times> error option) \<times> world"
  HandleError :: "error \<Rightarrow> error"
  oldCmd_Main :: "world \<Rightarrow> world"
  Commands :: CommandList
  Version_String :: "PluginVersion \<Rightarrow> string"

subsection \<open>The operating system\<close>

text \<open>
  \<^verbatim>\<open>os.Remove\<close> deletes the named file, or fails and changes nothing: on the empty
  path, on a path that is not there, and on a path the operating system refuses to
  remove. The command calls it in a \<^verbatim>\<open>defer\<close> statement and so discards its result.
\<close>

definition os_Remove_world :: "string \<Rightarrow> world \<Rightarrow> world" where
  "os_Remove_world name w =
     (if name = [] \<or> name \<in> protected w then w else w\<lparr>files := (files w)(name := None)\<rparr>)"

definition os_Remove :: "string \<Rightarrow> run \<Rightarrow> run" where
  "os_Remove name s = emit (E_Remove name) (s\<lparr>env := os_Remove_world name (env s)\<rparr>)"

text \<open>\<^verbatim>\<open>os.Stat\<close> returns the file's information, or \<^verbatim>\<open>nil\<close> and an error.\<close>

definition os_Stat :: "string \<Rightarrow> world \<Rightarrow> int option" where
  "os_Stat name w = files w name"

subsection \<open>The texts shown to the user\<close>

text \<open>
  The string literals the file hands to the user interface, each under a name, so that a
  proof compares two names and not two lists of characters.
\<close>

definition text_attention :: string where
  "text_attention = ''Attention: Plugins are binaries written by potentially untrusted authors.''"

definition text_own_risk :: string where
  "text_own_risk = ''Install and use plugins at your own risk.''"

definition prompt_file :: string where
  "prompt_file = ''Do you want to install the plugin {{.Path}}?''"

definition prompt_url :: string where
  "prompt_url = ''Do you want to install the plugin from {{.Path}}?''"

definition text_starting_download :: string where
  "text_starting_download = ''Starting download of plugin binary from URL...''"

definition text_bytes_downloaded :: string where
  "text_bytes_downloaded = ''{{.Bytes}} bytes downloaded...''"

definition text_installing :: string where
  "text_installing = ''Installing plugin {{.Name}}...''"

definition text_installed :: string where
  "text_installed = ''Plugin {{.Name}} {{.Version}} successfully installed.''"

definition text_already_installed :: string where
  "text_already_installed =
     ''Plugin {{.Name}} {{.Version}} is already installed. Uninstalling existing plugin...''"

definition text_uninstalled :: string where
  "text_uninstalled = ''Plugin {{.Name}} successfully uninstalled.''"

subsection \<open>The command\<close>

definition promptForInstallPlugin ::
  "InstallPluginCommand \<Rightarrow> string \<Rightarrow> string \<Rightarrow> run \<Rightarrow> error option \<times> run" where
  "promptForInstallPlugin cmd prompt path s =
     (let s1 = emit (E_DisplayHeader text_attention) s;
          s2 = emit (E_DisplayHeader text_own_risk) s1
      in if \<not> Force cmd then
           (let (really, promptErr) =
                  DisplayBoolPrompt (UI cmd) False prompt [(''Path'', TString path)] (env s2);
                s3 = emit (E_DisplayBoolPrompt prompt [(''Path'', TString path)]) s2
            in if promptErr \<noteq> None then (promptErr, s3)
               else if \<not> really then (Some PluginInstallationCancelled, s3)
               else (None, s3))
         else (None, s2))"

definition preparePluginForInstallation ::
  "packages \<Rightarrow> InstallPluginCommand \<Rightarrow> string \<Rightarrow> run
     \<Rightarrow> (string \<times> error option) outcome \<times> run" where
  "preparePluginForInstallation pk cmd pathURLOrPluginName s =
     (let pathType = DeterminePathType pk pathURLOrPluginName (env s);
          s0 = emit (E_DeterminePathType pathURLOrPluginName) s
      in if pathType = PluginFilePath then
           (let s1 = emit (E_FileExists pathURLOrPluginName) s0
            in if \<not> FileExists (Actor cmd) pathURLOrPluginName (env s0)
               then (Returned ([], Some (FileNotFoundError pathURLOrPluginName)), s1)
               else
                 (let (err, s2) = promptForInstallPlugin cmd prompt_file pathURLOrPluginName s1
                  in if err \<noteq> None then (Returned ([], err), s2)
                     else
                       (let (r, w) = CreateExecutableCopy (Actor cmd) pathURLOrPluginName (env s2)
                        in (Returned r,
                            emit (E_CreateExecutableCopy pathURLOrPluginName) (s2\<lparr>env := w\<rparr>)))))
         else if pathType = PluginHTTPPath then
           (let (err, s2) = promptForInstallPlugin cmd prompt_url pathURLOrPluginName s0
            in if err \<noteq> None then (Returned ([], err), s2)
               else
                 (let s3 = emit (E_DisplayText text_starting_download []) s2;
                      ((downloadedPath, _), w) =
                        FetchPluginFromURL (Actor cmd) pathURLOrPluginName (env s3);
                      s4 = emit (E_FetchPluginFromURL pathURLOrPluginName) (s3\<lparr>env := w\<rparr>);
                      s5 = emit (E_Stat downloadedPath) s4
                  in case os_Stat downloadedPath (env s4) of
                       None \<Rightarrow> (Panicked, s5)
                     | Some sz \<Rightarrow>
                         (Returned (downloadedPath, None),
                          emit (E_DisplayText text_bytes_downloaded
                                  [(''Bytes'', TInt sz)]) s5)))
         else
           (Returned ([], Some (UnsupportedURLSchemeError pathURLOrPluginName)), s0))"

definition installPlugin ::
  "packages \<Rightarrow> InstallPluginCommand \<Rightarrow> Plugin \<Rightarrow> string \<Rightarrow> run \<Rightarrow> error option \<times> run" where
  "installPlugin pk cmd plugin pluginPath s =
     (let s1 = emit (E_DisplayTextWithFlavor text_installing
                       [(''Name'', TString (Name plugin))]) s;
          (installErr, w) = InstallPluginFromPath (Actor cmd) pluginPath plugin (env s1);
          s2 = emit (E_InstallPluginFromPath pluginPath (Name plugin)) (s1\<lparr>env := w\<rparr>)
      in if installErr \<noteq> None then (installErr, s2)
         else
           (let s3 = emit E_DisplayOK s2;
                s4 = emit (E_DisplayTextWithFlavor text_installed
                             [(''Name'', TString (Name plugin)),
                              (''Version'', TString (Version_String pk (Version plugin)))]) s3
            in (None, s4)))"

definition uninstallPlugin ::
  "packages \<Rightarrow> InstallPluginCommand \<Rightarrow> Plugin \<Rightarrow> RPCService \<Rightarrow> run \<Rightarrow> error option \<times> run" where
  "uninstallPlugin pk cmd plugin rpcService s =
     (let s1 = emit (E_DisplayText text_already_installed
                  [(''Name'', TString (Name plugin)),
                   (''Version'', TString (Version_String pk (Version plugin)))]) s;
          (uninstallErr, w) = UninstallPlugin (Actor cmd) rpcService (Name plugin) (env s1);
          s2 = emit (E_UninstallPlugin (Name plugin)) (s1\<lparr>env := w\<rparr>)
      in if uninstallErr \<noteq> None then (uninstallErr, s2)
         else
           (let s3 = emit E_DisplayOK s2;
                s4 = emit (E_DisplayText text_uninstalled
                             [(''Name'', TString (Name plugin))]) s3
            in (None, s4)))"

text \<open>
  \<open>Execute\<close> from the call of \<^verbatim>\<open>shared.NewRPCService\<close> to its last line: what runs
  between the \<^verbatim>\<open>defer\<close> statement and the deferred call.
\<close>

definition Execute_deferred_body ::
  "packages \<Rightarrow> InstallPluginCommand \<Rightarrow> string \<Rightarrow> string \<Rightarrow> run \<Rightarrow> error option \<times> run" where
  "Execute_deferred_body pk cmd pluginPath tempPluginPath s1 =
     (let ((rpcService, err), w2) = NewRPCService pk (env s1);
          s2 = emit E_NewRPCService (s1\<lparr>env := w2\<rparr>)
      in if err \<noteq> None then (err, s2)
         else
           (let ((plugin, err), w3) =
                  GetAndValidatePlugin (Actor cmd) rpcService (Commands pk) tempPluginPath (env s2);
                s3 = emit (E_GetAndValidatePlugin tempPluginPath) (s2\<lparr>env := w3\<rparr>)
            in case err of
                 Some e \<Rightarrow>
                   (Some (HandleError pk
                            (case e of PluginInvalidError _ \<Rightarrow> PluginInvalidError pluginPath
                                     | _ \<Rightarrow> e)), s3)
               | None \<Rightarrow>
                   (let s4 = emit (E_IsPluginInstalled (Name plugin)) s3
                    in if IsPluginInstalled (Actor cmd) (Name plugin) (env s3) then
                         (if \<not> Force cmd then
                            (Some (PluginAlreadyInstalledError (Name plugin)
                                     (Version_String pk (Version plugin)) pluginPath), s4)
                          else
                            (let (err, s5) = uninstallPlugin pk cmd plugin rpcService s4
                             in if err \<noteq> None then (err, s5)
                                else installPlugin pk cmd plugin tempPluginPath s5))
                       else installPlugin pk cmd plugin tempPluginPath s4)))"

text \<open>
  \<^verbatim>\<open>defer os.Remove(tempPluginPath)\<close> is executed before the error check, so the
  removal runs on every return that follows it. A panic inside
  \<open>preparePluginForInstallation\<close> leaves \<open>Execute\<close> before the \<^verbatim>\<open>defer\<close> statement
  is reached.
\<close>

definition Execute :: "packages \<Rightarrow> InstallPluginCommand \<Rightarrow> run \<Rightarrow> error option outcome \<times> run" where
  "Execute pk cmd s =
     (if \<not> Experimental (Config cmd) then
        (Returned None, emit E_oldCmd_Main (s\<lparr>env := oldCmd_Main pk (env s)\<rparr>))
      else
        (let pluginPath = PathURLOrPluginName (OptionalArgs cmd)
         in if pluginPath = [] then
              (Returned (Some (RequiredArgumentError ''PATH_URL_PLUGIN_NAME'')), s)
            else
              (case preparePluginForInstallation pk cmd pluginPath s of
                 (Panicked, s1) \<Rightarrow> (Panicked, s1)
               | (Returned (tempPluginPath, err), s1) \<Rightarrow>
                   (if err \<noteq> None then (Returned err, os_Remove tempPluginPath s1)
                    else
                      (let (r, s2) = Execute_deferred_body pk cmd pluginPath tempPluginPath s1
                       in (Returned r, os_Remove tempPluginPath s2))))))"

subsection \<open>Vocabulary of the statements\<close>

text \<open>The calls a run of the command added to the record.\<close>

definition new_events :: "run \<Rightarrow> run \<Rightarrow> event list" where
  "new_events s s' = drop (length (trace s)) (trace s')"

text \<open>The two header lines \<open>promptForInstallPlugin\<close> displays before anything else.\<close>

definition warning :: "event list" where
  "warning =
     [E_DisplayHeader text_attention, E_DisplayHeader text_own_risk]"

definition confirmation :: "InstallPluginCommand \<Rightarrow> string \<Rightarrow> string \<Rightarrow> event list" where
  "confirmation cmd prompt path =
     warning @ (if Force cmd then [] else [E_DisplayBoolPrompt prompt [(''Path'', TString path)]])"

text \<open>The calls that classify the argument, before the user is addressed.\<close>

definition resolving :: "PluginPathType \<Rightarrow> string \<Rightarrow> event list" where
  "resolving t p = E_DeterminePathType p # (if t = PluginFilePath then [E_FileExists p] else [])"

text \<open>The question asked for a local file and for a URL.\<close>

definition prompt_text :: "PluginPathType \<Rightarrow> string" where
  "prompt_text t =
     (if t = PluginFilePath then prompt_file else prompt_url)"

text \<open>The calls that stage a binary, the prompts, and the calls that change the registry.\<close>

fun staging :: "event \<Rightarrow> bool" where
  "staging (E_CreateExecutableCopy _) = True"
| "staging (E_FetchPluginFromURL _) = True"
| "staging _ = False"

fun is_prompt :: "event \<Rightarrow> bool" where
  "is_prompt (E_DisplayBoolPrompt _ _) = True"
| "is_prompt _ = False"

fun registry_call :: "event \<Rightarrow> bool" where
  "registry_call (E_UninstallPlugin _) = True"
| "registry_call (E_InstallPluginFromPath _ _) = True"
| "registry_call _ = False"

fun is_remove :: "event \<Rightarrow> bool" where
  "is_remove (E_Remove _) = True"
| "is_remove _ = False"

text \<open>
  The states of an install attempt, and the state a recorded call belongs to. The
  display of a text line belongs to no state of its own.
\<close>

datatype attempt_state =
    Resolving | AwaitingConfirmation | Staging | Validating | ConflictCheck
  | Uninstalling | Committing | Cleanup

fun state_of :: "event \<Rightarrow> attempt_state option" where
  "state_of (E_DeterminePathType _) = Some Resolving"
| "state_of (E_FileExists _) = Some Resolving"
| "state_of (E_DisplayHeader _) = Some AwaitingConfirmation"
| "state_of (E_DisplayBoolPrompt _ _) = Some AwaitingConfirmation"
| "state_of (E_CreateExecutableCopy _) = Some Staging"
| "state_of (E_FetchPluginFromURL _) = Some Staging"
| "state_of (E_Stat _) = Some Staging"
| "state_of E_NewRPCService = Some Validating"
| "state_of (E_GetAndValidatePlugin _) = Some Validating"
| "state_of (E_IsPluginInstalled _) = Some ConflictCheck"
| "state_of (E_UninstallPlugin _) = Some Uninstalling"
| "state_of (E_InstallPluginFromPath _ _) = Some Committing"
| "state_of (E_Remove _) = Some Cleanup"
| "state_of _ = None"

text \<open>The order in which the code passes through the states.\<close>

fun code_rank :: "attempt_state \<Rightarrow> nat" where
  "code_rank Resolving = 0"
| "code_rank AwaitingConfirmation = 1"
| "code_rank Staging = 2"
| "code_rank Validating = 3"
| "code_rank ConflictCheck = 4"
| "code_rank Uninstalling = 5"
| "code_rank Committing = 6"
| "code_rank Cleanup = 7"

text \<open>
  The order the spec's state machine gives:
  \<^verbatim>\<open>Resolving -> Staging -> AwaitingConfirmation -> Validating -> (ConflictCheck) ->
  [Uninstalling ->] Committing -> Done\<close>, the cleanup of the staged binary coming last.
\<close>

fun spec_rank :: "attempt_state \<Rightarrow> nat" where
  "spec_rank Resolving = 0"
| "spec_rank Staging = 1"
| "spec_rank AwaitingConfirmation = 2"
| "spec_rank Validating = 3"
| "spec_rank ConflictCheck = 4"
| "spec_rank Uninstalling = 5"
| "spec_rank Committing = 6"
| "spec_rank Cleanup = 7"

definition states_of :: "event list \<Rightarrow> attempt_state list" where
  "states_of evs = List.map_filter state_of evs"

text \<open>
  The transitions of the code: one state forward along Resolving, AwaitingConfirmation,
  Staging, Validating, ConflictCheck, Uninstalling (which may be left out), Committing,
  or from any of them to the cleanup of the staged binary. A list of states follows the
  transitions when each state is the one before it or a transition away from it.
\<close>

fun step :: "attempt_state \<Rightarrow> attempt_state \<Rightarrow> bool" where
  "step Resolving y = (y = AwaitingConfirmation \<or> y = Cleanup)"
| "step AwaitingConfirmation y = (y = Staging \<or> y = Cleanup)"
| "step Staging y = (y = Validating \<or> y = Cleanup)"
| "step Validating y = (y = ConflictCheck \<or> y = Cleanup)"
| "step ConflictCheck y = (y = Uninstalling \<or> y = Committing \<or> y = Cleanup)"
| "step Uninstalling y = (y = Committing \<or> y = Cleanup)"
| "step Committing y = (y = Cleanup)"
| "step Cleanup y = False"

fun follows :: "attempt_state list \<Rightarrow> bool" where
  "follows (x # y # zs) = ((x = y \<or> step x y) \<and> follows (y # zs))"
| "follows _ = True"

text \<open>The calls \<open>evs\<close> start in state \<open>a\<close>, follow the transitions and end in state \<open>b\<close>.\<close>

definition walk :: "attempt_state \<Rightarrow> event list \<Rightarrow> attempt_state \<Rightarrow> bool" where
  "walk a evs b \<longleftrightarrow>
     (\<exists>sts. states_of evs = a # sts \<and> last (a # sts) = b \<and> follows (a # sts))"

text \<open>
  The ranks of the states a list of calls passes through, and the lists that stay, in
  order, between two ranks.
\<close>

definition ranks :: "event list \<Rightarrow> nat list" where
  "ranks evs = map code_rank (states_of evs)"

definition within :: "nat \<Rightarrow> nat \<Rightarrow> event list \<Rightarrow> bool" where
  "within lo hi evs \<longleftrightarrow> sorted (ranks evs) \<and> (\<forall>r\<in>set (ranks evs). lo \<le> r \<and> r \<le> hi)"

subsection \<open>A concrete set of collaborators\<close>

text \<open>
  Modelled from the spec: package \<^verbatim>\<open>pluginaction\<close> (the actor behind
  \<open>InstallPluginActor\<close>), \<^verbatim>\<open>util.DeterminePathType\<close>, \<^verbatim>\<open>shared.NewRPCService\<close>,
  \<^verbatim>\<open>shared.HandleError\<close> and the legacy command are not in the file. The theorems
  quantify over them; the definitions of this subsection give one implementation, after
  the spec's Stager, Resolver and Registry, at which the theorems are instantiated.
  \<open>remote\<close> is what the network serves (a URL mapped to the size of its body) and
  \<open>meta\<close> what the binary at a path answers when asked for its metadata.
\<close>

definition fx_CreateExecutableCopy :: "string \<Rightarrow> world \<Rightarrow> (string \<times> error option) \<times> world" where
  "fx_CreateExecutableCopy path w =
     (case files w path of
        None \<Rightarrow> (([], Some (OtherError ''CopyError'')), w)
      | Some n \<Rightarrow> ((path @ ''.tmp'', None), w\<lparr>files := (files w)(path @ ''.tmp'' \<mapsto> n)\<rparr>))"

definition fx_FetchPluginFromURL ::
  "(string \<rightharpoonup> int) \<Rightarrow> string \<Rightarrow> world \<Rightarrow> (string \<times> error option) \<times> world" where
  "fx_FetchPluginFromURL remote url w =
     (case remote url of
        None \<Rightarrow> (([], Some (OtherError ''FetchError'')), w)
      | Some n \<Rightarrow> ((''/tmp/download'', None), w\<lparr>files := (files w)(''/tmp/download'' \<mapsto> n)\<rparr>))"

definition fx_GetAndValidatePlugin ::
  "(string \<rightharpoonup> Plugin) \<Rightarrow> RPCService \<Rightarrow> CommandList \<Rightarrow> string \<Rightarrow> world
     \<Rightarrow> (Plugin \<times> error option) \<times> world" where
  "fx_GetAndValidatePlugin meta rpc cmds path w =
     (let none = \<lparr>Name = [], Version = \<lparr>Major = 0, Minor = 0, Build = 0\<rparr>\<rparr>
      in case files w path of
           None \<Rightarrow> ((none, Some (PluginInvalidError path)), w)
         | Some _ \<Rightarrow>
             (case meta path of
                None \<Rightarrow> ((none, Some (PluginInvalidError path)), w)
              | Some p \<Rightarrow>
                  if Name p = [] \<or> Name p \<in> set cmds
                  then ((none, Some (OtherError ''NameCollisionError'')), w)
                  else ((p, None), w)))"

definition fx_InstallPluginFromPath :: "string \<Rightarrow> Plugin \<Rightarrow> world \<Rightarrow> error option \<times> world" where
  "fx_InstallPluginFromPath path plugin w =
     (case files w path of
        None \<Rightarrow> (Some (OtherError ''CopyError''), w)
      | Some n \<Rightarrow>
          (None, w\<lparr>files := (files w)(''/plugins/'' @ Name plugin \<mapsto> n),
                    plugins := (plugins w)(Name plugin \<mapsto> plugin)\<rparr>))"

definition fx_UninstallPlugin :: "RPCService \<Rightarrow> string \<Rightarrow> world \<Rightarrow> error option \<times> world" where
  "fx_UninstallPlugin rpc name w =
     (case plugins w name of
        None \<Rightarrow> (None, w)
      | Some _ \<Rightarrow>
          (None, w\<lparr>files := (files w)(''/plugins/'' @ name := None),
                    plugins := (plugins w)(name := None)\<rparr>))"

definition fx_Actor :: "(string \<rightharpoonup> int) \<Rightarrow> (string \<rightharpoonup> Plugin) \<Rightarrow> InstallPluginActor" where
  "fx_Actor remote meta =
     \<lparr>CreateExecutableCopy = fx_CreateExecutableCopy,
      FetchPluginFromURL = fx_FetchPluginFromURL remote,
      FileExists = (\<lambda>path w. files w path \<noteq> None),
      GetAndValidatePlugin = fx_GetAndValidatePlugin meta,
      InstallPluginFromPath = fx_InstallPluginFromPath,
      IsPluginInstalled = (\<lambda>name w. plugins w name \<noteq> None),
      UninstallPlugin = fx_UninstallPlugin\<rparr>"

definition fx_DeterminePathType :: "string \<Rightarrow> world \<Rightarrow> PluginPathType" where
  "fx_DeterminePathType input w =
     (if take 7 input = ''http://'' \<or> take 8 input = ''https://'' then PluginHTTPPath
      else if files w input \<noteq> None then PluginFilePath
      else PluginUnsupportedPathType)"

definition fx_Version_String :: "PluginVersion \<Rightarrow> string" where
  "fx_Version_String v =
     (if v = \<lparr>Major = 1, Minor = 0, Build = 0\<rparr> then ''1.0.0''
      else if v = \<lparr>Major = 2, Minor = 0, Build = 0\<rparr> then ''2.0.0''
      else ''N/A'')"

definition fx_packages :: packages where
  "fx_packages =
     \<lparr>DeterminePathType = fx_DeterminePathType,
      NewRPCService = (\<lambda>w. ((RPCService 0, None), w)),
      HandleError = (\<lambda>e. e),
      oldCmd_Main = (\<lambda>w. w),
      Commands = [''help'', ''plugins'', ''install-plugin''],
      Version_String = fx_Version_String\<rparr>"

text \<open>
  A machine on which version 1.0.0 of the plugin \<open>echo\<close> is installed and the user holds
  the binary of its version 2.0.0; the same binary is served at a URL.
\<close>

definition echo1 :: Plugin where
  "echo1 = \<lparr>Name = ''echo'', Version = \<lparr>Major = 1, Minor = 0, Build = 0\<rparr>\<rparr>"

definition echo2 :: Plugin where
  "echo2 = \<lparr>Name = ''echo'', Version = \<lparr>Major = 2, Minor = 0, Build = 0\<rparr>\<rparr>"

definition fx_world :: world where
  "fx_world =
     \<lparr>files = [''/plugins/echo'' \<mapsto> 1024, ''/home/u/echo'' \<mapsto> 2048],
      protected = {},
      plugins = [''echo'' \<mapsto> echo1]\<rparr>"

definition fx_run :: run where
  "fx_run = \<lparr>env = fx_world, trace = []\<rparr>"

definition fx_remote :: "string \<rightharpoonup> int" where
  "fx_remote = [''https://example.com/echo'' \<mapsto> 2048]"

definition fx_meta :: "string \<rightharpoonup> Plugin" where
  "fx_meta = [''/home/u/echo.tmp'' \<mapsto> echo2, ''/tmp/download'' \<mapsto> echo2]"

text \<open>The command line: the argument, the force flag, the experimental flag, the user's answer.\<close>

definition fx_cmd :: "string \<Rightarrow> bool \<Rightarrow> bool \<Rightarrow> bool \<Rightarrow> InstallPluginCommand" where
  "fx_cmd arg force experimental answer =
     \<lparr>OptionalArgs = \<lparr>PathURLOrPluginName = arg\<rparr>,
      Force = force,
      RegisteredRepository = [],
      UI = \<lparr>DisplayBoolPrompt = (\<lambda>_ _ _ _. (answer, None))\<rparr>,
      Config = \<lparr>Experimental = experimental\<rparr>,
      Actor = fx_Actor fx_remote fx_meta\<rparr>"

text \<open>
  An actor whose download fails after part of the body has been written to disk: it
  returns the path of the partial file together with the error.
\<close>

definition fx_partial_fetch :: "string \<Rightarrow> world \<Rightarrow> (string \<times> error option) \<times> world" where
  "fx_partial_fetch url w =
     ((''/tmp/download'', Some (OtherError ''FetchError'')),
      w\<lparr>files := (files w)(''/tmp/download'' \<mapsto> 100)\<rparr>)"

definition fx_cmd_partial :: "string \<Rightarrow> InstallPluginCommand" where
  "fx_cmd_partial arg =
     (fx_cmd arg True True True)
       \<lparr>Actor := (fx_Actor fx_remote fx_meta)\<lparr>FetchPluginFromURL := fx_partial_fetch\<rparr>\<rparr>"

text \<open>An actor whose uninstall fails.\<close>

definition fx_cmd_stuck :: "string \<Rightarrow> InstallPluginCommand" where
  "fx_cmd_stuck arg =
     (fx_cmd arg True True True)
       \<lparr>Actor := (fx_Actor fx_remote fx_meta)
                   \<lparr>UninstallPlugin := (\<lambda>rpc name w. (Some (OtherError ''busy''), w))\<rparr>\<rparr>"

text \<open>
  A machine on which the operating system refuses to remove the staged copy, and an actor
  whose copy fails after the temporary file has been created: it reports the error and
  the empty path.
\<close>

definition fx_run_locked :: run where
  "fx_run_locked = \<lparr>env = fx_world\<lparr>protected := {''/home/u/echo.tmp''}\<rparr>, trace = []\<rparr>"

definition fx_cmd_leaky :: "string \<Rightarrow> InstallPluginCommand" where
  "fx_cmd_leaky arg =
     (fx_cmd arg True True True)
       \<lparr>Actor := (fx_Actor fx_remote fx_meta)
                   \<lparr>CreateExecutableCopy :=
                      (\<lambda>path w. (([], Some (OtherError ''CopyError'')),
                                  w\<lparr>files := (files w)(''/tmp/staged'' \<mapsto> 0)\<rparr>))\<rparr>\<rparr>"

section \<open>Properties\<close>

subsection \<open>The steps of the command\<close>

lemma promptForInstallPlugin_env [simp]:
  "env (snd (promptForInstallPlugin cmd prompt path s)) = env s"
  by (simp add: promptForInstallPlugin_def emit_def Let_def split: prod.splits)

lemma promptForInstallPlugin_trace [simp]:
  "trace (snd (promptForInstallPlugin cmd prompt path s)) = trace s @ confirmation cmd prompt path"
  by (simp add: promptForInstallPlugin_def confirmation_def warning_def emit_def Let_def
           split: prod.splits)

lemma promptForInstallPlugin_result:
  "fst (promptForInstallPlugin cmd prompt path s) =
     (if Force cmd then None
      else case DisplayBoolPrompt (UI cmd) False prompt [(''Path'', TString path)] (env s) of
             (really, promptErr) \<Rightarrow>
               if promptErr \<noteq> None then promptErr
               else if \<not> really then Some PluginInstallationCancelled else None)"
  by (simp add: promptForInstallPlugin_def emit_def Let_def split: prod.splits)

lemma ranks_Nil [simp]: "ranks [] = []"
  by (simp add: ranks_def states_of_def map_filter_simps)

lemma ranks_Cons [simp]:
  "ranks (e # evs) = (case state_of e of None \<Rightarrow> ranks evs | Some st \<Rightarrow> code_rank st # ranks evs)"
  by (simp add: ranks_def states_of_def map_filter_simps split: option.splits)

lemma ranks_append [simp]: "ranks (xs @ ys) = ranks xs @ ranks ys"
  by (induction xs) (simp_all split: option.splits)

lemma within_append:
  "within a b xs \<Longrightarrow> within c d ys \<Longrightarrow> b \<le> c \<Longrightarrow> a \<le> c \<Longrightarrow> b \<le> d \<Longrightarrow> within a d (xs @ ys)"
  by (fastforce simp: within_def sorted_append)



lemma promptForInstallPlugin_run:
  "snd (promptForInstallPlugin cmd prompt path s) =
     s\<lparr>trace := trace s @ confirmation cmd prompt path\<rparr>"
  by (simp add: promptForInstallPlugin_def confirmation_def warning_def emit_def Let_def
           split: prod.splits)


lemma prepare_unsupported:
  assumes "DeterminePathType pk p (env s) \<noteq> PluginFilePath"
    and "DeterminePathType pk p (env s) \<noteq> PluginHTTPPath"
  shows "preparePluginForInstallation pk cmd p s =
           (Returned ([], Some (UnsupportedURLSchemeError p)),
            s\<lparr>trace := trace s @ [E_DeterminePathType p]\<rparr>)"
  using assms by (simp add: preparePluginForInstallation_def emit_def Let_def)

lemma prepare_file_missing:
  assumes "DeterminePathType pk p (env s) = PluginFilePath"
    and "\<not> FileExists (Actor cmd) p (env s)"
  shows "preparePluginForInstallation pk cmd p s =
           (Returned ([], Some (FileNotFoundError p)),
            s\<lparr>trace := trace s @ [E_DeterminePathType p, E_FileExists p]\<rparr>)"
  using assms by (simp add: preparePluginForInstallation_def emit_def Let_def)


lemma promptForInstallPlugin_fst_trace [simp]:
  "fst (promptForInstallPlugin cmd prompt path (s\<lparr>trace := t\<rparr>)) =
   fst (promptForInstallPlugin cmd prompt path s)"
  by (simp add: promptForInstallPlugin_result)

lemma prepare_file_refused:
  assumes "DeterminePathType pk p (env s) = PluginFilePath"
    and "FileExists (Actor cmd) p (env s)"
    and "fst (promptForInstallPlugin cmd prompt_file p s) = Some e"
  shows "preparePluginForInstallation pk cmd p s =
           (Returned ([], Some e),
            s\<lparr>trace := trace s @ [E_DeterminePathType p, E_FileExists p]
                           @ confirmation cmd prompt_file p\<rparr>)"
proof -
  have "fst (promptForInstallPlugin cmd prompt_file p
               (s\<lparr>trace := trace s @ [E_DeterminePathType p, E_FileExists p]\<rparr>)) = Some e"
    using assms(3) by simp
  with assms(1,2) show ?thesis
    by (simp add: preparePluginForInstallation_def emit_def Let_def split_beta
          promptForInstallPlugin_run)
qed

lemma prepare_file_confirmed:
  assumes "DeterminePathType pk p (env s) = PluginFilePath"
    and "FileExists (Actor cmd) p (env s)"
    and "fst (promptForInstallPlugin cmd prompt_file p s) = None"
  shows "preparePluginForInstallation pk cmd p s =
           (Returned (fst (CreateExecutableCopy (Actor cmd) p (env s))),
            \<lparr>env = snd (CreateExecutableCopy (Actor cmd) p (env s)),
             trace = trace s @ [E_DeterminePathType p, E_FileExists p]
                       @ confirmation cmd prompt_file p @ [E_CreateExecutableCopy p]\<rparr>)"
proof -
  have "fst (promptForInstallPlugin cmd prompt_file p
               (s\<lparr>trace := trace s @ [E_DeterminePathType p, E_FileExists p]\<rparr>)) = None"
    using assms(3) by simp
  with assms(1,2) show ?thesis
    by (simp add: preparePluginForInstallation_def emit_def Let_def split_beta
          promptForInstallPlugin_run)
qed



lemma prepare_http_refused:
  assumes "DeterminePathType pk p (env s) = PluginHTTPPath"
    and "fst (promptForInstallPlugin cmd prompt_url p s) = Some e"
  shows "preparePluginForInstallation pk cmd p s =
           (Returned ([], Some e),
            s\<lparr>trace := trace s @ [E_DeterminePathType p] @ confirmation cmd prompt_url p\<rparr>)"
  using assms
  by (simp add: preparePluginForInstallation_def emit_def Let_def split_beta
        promptForInstallPlugin_run)

lemma prepare_http_confirmed:
  assumes "DeterminePathType pk p (env s) = PluginHTTPPath"
    and "fst (promptForInstallPlugin cmd prompt_url p s) = None"
    and "FetchPluginFromURL (Actor cmd) p (env s) = ((dp, ferr), w)"
    and "evs = [E_DeterminePathType p] @ confirmation cmd prompt_url p @
               [E_DisplayText text_starting_download [], E_FetchPluginFromURL p, E_Stat dp]"
  shows "preparePluginForInstallation pk cmd p s =
           (case files w dp of
              None \<Rightarrow> (Panicked, \<lparr>env = w, trace = trace s @ evs\<rparr>)
            | Some sz \<Rightarrow>
                (Returned (dp, None),
                 \<lparr>env = w,
                  trace = trace s @ evs @ [E_DisplayText text_bytes_downloaded [(''Bytes'', TInt sz)]]\<rparr>))"
  using assms
  by (simp add: preparePluginForInstallation_def emit_def Let_def split_beta os_Stat_def
        promptForInstallPlugin_run split: option.splits)

lemma within_confirmation: "within 1 1 (confirmation cmd prompt path)"
  by (simp add: within_def confirmation_def warning_def)

lemma registry_call_confirmation: "filter registry_call (confirmation cmd prompt path) = []"
  by (simp add: confirmation_def warning_def)

lemma within_mono: "within a b evs \<Longrightarrow> a' \<le> a \<Longrightarrow> b \<le> b' \<Longrightarrow> within a' b' evs"
  by (fastforce simp: within_def)

lemma within_Nil [simp]: "within a b []"
  by (simp add: within_def)


lemma within_resolving_confirmation:
  "within 0 2 ((E_DeterminePathType p # es) @ confirmation cmd prompt path)"
  if "es = [] \<or> es = [E_FileExists p]"
proof -
  have "within 0 0 (E_DeterminePathType p # es)"
    using that by (auto simp: within_def)
  from within_append [OF this within_confirmation, of cmd prompt path]
  have "within 0 1 ((E_DeterminePathType p # es) @ confirmation cmd prompt path)"
    by simp
  then show ?thesis
    by (rule within_mono) simp_all
qed

lemma prepare_events:
  "\<exists>evs. trace (snd (preparePluginForInstallation pk cmd p s)) = trace s @ evs
         \<and> within 0 2 evs \<and> filter registry_call evs = []"
proof (cases "DeterminePathType pk p (env s)")
  case PluginUnsupportedPathType
  then show ?thesis
    by (simp add: prepare_unsupported within_def)
next
  case PluginFilePath
  show ?thesis
  proof (cases "FileExists (Actor cmd) p (env s)")
    case False
    with PluginFilePath show ?thesis
      by (simp add: prepare_file_missing within_def)
  next
    case True
    have c: "within 0 2 ([E_DeterminePathType p, E_FileExists p] @ confirmation cmd prompt_file p)"
      by (rule within_resolving_confirmation) simp
    show ?thesis
    proof (cases "fst (promptForInstallPlugin cmd prompt_file p s)")
      case (Some e)
      from prepare_file_refused [OF PluginFilePath True Some] c show ?thesis
        by (simp add: registry_call_confirmation)
    next
      case None
      have "within 0 2 (([E_DeterminePathType p, E_FileExists p] @ confirmation cmd prompt_file p)
                          @ [E_CreateExecutableCopy p])"
        by (rule within_append [OF c, where c = 2]) (simp_all add: within_def)
      with prepare_file_confirmed [OF PluginFilePath True None] show ?thesis
        by (simp add: registry_call_confirmation)
    qed
  qed
next
  case PluginHTTPPath
  have c: "within 0 2 ([E_DeterminePathType p] @ confirmation cmd prompt_url p)"
    by (rule within_resolving_confirmation) simp
  show ?thesis
  proof (cases "fst (promptForInstallPlugin cmd prompt_url p s)")
    case (Some e)
    from prepare_http_refused [OF PluginHTTPPath Some] c show ?thesis
      by (simp add: registry_call_confirmation)
  next
    case None
    obtain dp ferr w where f: "FetchPluginFromURL (Actor cmd) p (env s) = ((dp, ferr), w)"
      by (metis surj_pair)
    have w1: "within 0 2 (([E_DeterminePathType p] @ confirmation cmd prompt_url p) @
               [E_DisplayText text_starting_download [], E_FetchPluginFromURL p, E_Stat dp])"
      by (rule within_append [OF c, where c = 2]) (simp_all add: within_def)
    have w2: "within 0 2 ((([E_DeterminePathType p] @ confirmation cmd prompt_url p) @
               [E_DisplayText text_starting_download [], E_FetchPluginFromURL p, E_Stat dp]) @
               [E_DisplayText text_bytes_downloaded [(''Bytes'', TInt sz)]])" for sz
      by (rule within_append [OF w1, where c = 2]) (simp_all add: within_def)
    from prepare_http_confirmed [OF PluginHTTPPath None f refl] w1 w2 show ?thesis
      by (simp add: registry_call_confirmation split: option.splits)
  qed
qed


lemma run_update_all [simp]:
  "(s::run)\<lparr>env := w, trace := t\<rparr> = \<lparr>env = w, trace = t\<rparr>"
  by (cases s) simp

lemma installPlugin_run:
  assumes "InstallPluginFromPath (Actor cmd) path plugin (env s) = (ierr, w)"
  shows "installPlugin pk cmd plugin path s =
           (ierr,
            \<lparr>env = w,
             trace = trace s @
               [E_DisplayTextWithFlavor text_installing [(''Name'', TString (Name plugin))],
                E_InstallPluginFromPath path (Name plugin)] @
               (if ierr = None
                then [E_DisplayOK,
                      E_DisplayTextWithFlavor text_installed
                        [(''Name'', TString (Name plugin)),
                         (''Version'', TString (Version_String pk (Version plugin)))]]
                else [])\<rparr>)"
  using assms by (auto simp: installPlugin_def emit_def Let_def)

lemma uninstallPlugin_run:
  assumes "UninstallPlugin (Actor cmd) rpc (Name plugin) (env s) = (uerr, w)"
  shows "uninstallPlugin pk cmd plugin rpc s =
           (uerr,
            \<lparr>env = w,
             trace = trace s @
               [E_DisplayText text_already_installed
                  [(''Name'', TString (Name plugin)),
                   (''Version'', TString (Version_String pk (Version plugin)))],
                E_UninstallPlugin (Name plugin)] @
               (if uerr = None
                then [E_DisplayOK,
                      E_DisplayText text_uninstalled [(''Name'', TString (Name plugin))]]
                else [])\<rparr>)"
  using assms by (auto simp: uninstallPlugin_def emit_def Let_def)

lemma installPlugin_events:
  "\<exists>evs. trace (snd (installPlugin pk cmd plugin path s)) = trace s @ evs \<and> within 6 6 evs
         \<and> filter staging evs = [] \<and> filter is_prompt evs = []"
proof -
  obtain ierr w where "InstallPluginFromPath (Actor cmd) path plugin (env s) = (ierr, w)"
    by (metis surj_pair)
  from installPlugin_run [OF this] show ?thesis
    by (simp add: within_def)
qed

lemma uninstallPlugin_events:
  "\<exists>evs. trace (snd (uninstallPlugin pk cmd plugin rpc s)) = trace s @ evs \<and> within 5 5 evs
         \<and> filter staging evs = [] \<and> filter is_prompt evs = []"
proof -
  obtain uerr w where "UninstallPlugin (Actor cmd) rpc (Name plugin) (env s) = (uerr, w)"
    by (metis surj_pair)
  from uninstallPlugin_run [OF this] show ?thesis
    by (simp add: within_def)
qed

text \<open>The branches of the deferred body.\<close>

lemma body_rpc_error:
  assumes "NewRPCService pk (env s1) = ((rpc, Some e), w2)"
  shows "Execute_deferred_body pk cmd p tmp s1 =
           (Some e, \<lparr>env = w2, trace = trace s1 @ [E_NewRPCService]\<rparr>)"
  using assms by (simp add: Execute_deferred_body_def emit_def Let_def)

lemma body_invalid:
  assumes "NewRPCService pk (env s1) = ((rpc, None), w2)"
    and "GetAndValidatePlugin (Actor cmd) rpc (Commands pk) tmp w2 = ((plugin, Some e), w3)"
  shows "Execute_deferred_body pk cmd p tmp s1 =
           (Some (HandleError pk
                    (case e of PluginInvalidError _ \<Rightarrow> PluginInvalidError p | _ \<Rightarrow> e)),
            \<lparr>env = w3, trace = trace s1 @ [E_NewRPCService, E_GetAndValidatePlugin tmp]\<rparr>)"
  using assms by (simp add: Execute_deferred_body_def emit_def Let_def)

lemma body_already_installed:
  assumes "NewRPCService pk (env s1) = ((rpc, None), w2)"
    and "GetAndValidatePlugin (Actor cmd) rpc (Commands pk) tmp w2 = ((plugin, None), w3)"
    and "IsPluginInstalled (Actor cmd) (Name plugin) w3"
    and "\<not> Force cmd"
  shows "Execute_deferred_body pk cmd p tmp s1 =
           (Some (PluginAlreadyInstalledError (Name plugin) (Version_String pk (Version plugin)) p),
            \<lparr>env = w3,
             trace = trace s1 @ [E_NewRPCService, E_GetAndValidatePlugin tmp,
                                 E_IsPluginInstalled (Name plugin)]\<rparr>)"
  using assms by (simp add: Execute_deferred_body_def emit_def Let_def)

lemma body_fresh:
  assumes "NewRPCService pk (env s1) = ((rpc, None), w2)"
    and "GetAndValidatePlugin (Actor cmd) rpc (Commands pk) tmp w2 = ((plugin, None), w3)"
    and "\<not> IsPluginInstalled (Actor cmd) (Name plugin) w3"
  shows "Execute_deferred_body pk cmd p tmp s1 =
           installPlugin pk cmd plugin tmp
             \<lparr>env = w3,
              trace = trace s1 @ [E_NewRPCService, E_GetAndValidatePlugin tmp,
                                  E_IsPluginInstalled (Name plugin)]\<rparr>"
  using assms by (simp add: Execute_deferred_body_def emit_def Let_def)

lemma body_force:
  assumes "NewRPCService pk (env s1) = ((rpc, None), w2)"
    and "GetAndValidatePlugin (Actor cmd) rpc (Commands pk) tmp w2 = ((plugin, None), w3)"
    and "IsPluginInstalled (Actor cmd) (Name plugin) w3"
    and "Force cmd"
    and "uninstallPlugin pk cmd plugin rpc
           \<lparr>env = w3,
            trace = trace s1 @ [E_NewRPCService, E_GetAndValidatePlugin tmp,
                                E_IsPluginInstalled (Name plugin)]\<rparr> = (uerr, s5)"
  shows "Execute_deferred_body pk cmd p tmp s1 =
           (if uerr \<noteq> None then (uerr, s5) else installPlugin pk cmd plugin tmp s5)"
  using assms
  by (simp add: Execute_deferred_body_def emit_def Let_def)

lemma body_events:
  "\<exists>evs. trace (snd (Execute_deferred_body pk cmd p tmp s1)) = trace s1 @ evs
         \<and> within 3 6 evs \<and> filter staging evs = [] \<and> filter is_prompt evs = []"
proof -
  obtain rpc rerr w2 where r: "NewRPCService pk (env s1) = ((rpc, rerr), w2)"
    by (metis surj_pair)
  show ?thesis
  proof (cases rerr)
    case (Some e)
    with r have "NewRPCService pk (env s1) = ((rpc, Some e), w2)" by simp
    from body_rpc_error [OF this, where cmd = cmd and p = p and tmp = tmp] show ?thesis
      by (simp add: within_def)
  next
    case None
    note r = r [unfolded None]
    obtain plugin verr w3 where
      v: "GetAndValidatePlugin (Actor cmd) rpc (Commands pk) tmp w2 = ((plugin, verr), w3)"
      by (metis surj_pair)
    let ?pre = "[E_NewRPCService, E_GetAndValidatePlugin tmp, E_IsPluginInstalled (Name plugin)]"
    let ?s4 = "\<lparr>env = w3, trace = trace s1 @ ?pre\<rparr>"
    have pre: "within 3 4 ?pre" "filter staging ?pre = []" "filter is_prompt ?pre = []"
      by (simp_all add: within_def)
    show ?thesis
    proof (cases verr)
      case (Some e)
      with v have "GetAndValidatePlugin (Actor cmd) rpc (Commands pk) tmp w2 = ((plugin, Some e), w3)" by simp
      from body_invalid [OF r this, where p = p] show ?thesis
        by (simp add: within_def)
    next
      case None
      note v = v [unfolded None]
      have inst: ?thesis
        if "Execute_deferred_body pk cmd p tmp s1 = installPlugin pk cmd plugin tmp s"
          and "trace s = trace s1 @ ?pre @ evs" and "within 5 5 evs"
          and "filter staging evs = []" and "filter is_prompt evs = []" for s evs
      proof -
        obtain evs' where e': "trace (snd (installPlugin pk cmd plugin tmp s)) = trace s @ evs'"
          "within 6 6 evs'" "filter staging evs' = []" "filter is_prompt evs' = []"
          using installPlugin_events by blast
        have "within 3 5 (?pre @ evs)"
          by (rule within_append [OF pre(1) that(3)]) simp_all
        from within_append [OF this e'(2)] have "within 3 6 ((?pre @ evs) @ evs')"
          by simp
        with that e' show ?thesis
          by simp
      qed
      show ?thesis
      proof (cases "IsPluginInstalled (Actor cmd) (Name plugin) w3")
        case False
        from body_fresh [OF r v False, where p = p] show ?thesis
          by (rule inst [where evs = "[]"]) simp_all
      next
        case True
        show ?thesis
        proof (cases "Force cmd")
          case False
          from body_already_installed [OF r v True False, where p = p] show ?thesis
            by (simp add: within_def)
        next
          case Force: True
          obtain uerr s5 where u: "uninstallPlugin pk cmd plugin rpc ?s4 = (uerr, s5)"
            by (metis surj_pair)
          obtain evs where e: "trace s5 = trace s1 @ ?pre @ evs" "within 5 5 evs"
            "filter staging evs = []" "filter is_prompt evs = []"
            using uninstallPlugin_events [of pk cmd plugin rpc ?s4] u by auto
          note b = body_force [OF r v True Force u, where p = p]
          show ?thesis
          proof (cases uerr)
            case None
            with b have "Execute_deferred_body pk cmd p tmp s1 = installPlugin pk cmd plugin tmp s5"
              by simp
            then show ?thesis
              using e by (rule inst [where evs = evs])
          next
            case (Some e')
            have "within 3 5 (?pre @ evs)"
              by (rule within_append [OF pre(1) e(2)]) simp_all
            then have "within 3 6 (?pre @ evs)"
              by (rule within_mono) simp_all
            with b Some e show ?thesis
              by simp
          qed
        qed
      qed
    qed
  qed
qed


text \<open>Execute, by the outcome of the preparation.\<close>

lemma Execute_panicked:
  assumes "Experimental (Config cmd)" and "p = PathURLOrPluginName (OptionalArgs cmd)" and "p \<noteq> []"
    and "preparePluginForInstallation pk cmd p s = (Panicked, s1)"
  shows "Execute pk cmd s = (Panicked, s1)"
  using assms by (simp add: Execute_def)

lemma Execute_prepare_failed:
  assumes "Experimental (Config cmd)" and "p = PathURLOrPluginName (OptionalArgs cmd)" and "p \<noteq> []"
    and "preparePluginForInstallation pk cmd p s = (Returned (tmp, Some e), s1)"
  shows "Execute pk cmd s = (Returned (Some e), os_Remove tmp s1)"
  using assms by (simp add: Execute_def)

lemma Execute_prepared:
  assumes "Experimental (Config cmd)" and "p = PathURLOrPluginName (OptionalArgs cmd)" and "p \<noteq> []"
    and "preparePluginForInstallation pk cmd p s = (Returned (tmp, None), s1)"
  shows "Execute pk cmd s =
           (Returned (fst (Execute_deferred_body pk cmd p tmp s1)),
            os_Remove tmp (snd (Execute_deferred_body pk cmd p tmp s1)))"
  using assms by (simp add: Execute_def split_beta Let_def)

lemma os_Remove_run:
  "os_Remove name s = \<lparr>env = os_Remove_world name (env s), trace = trace s @ [E_Remove name]\<rparr>"
  by (simp add: os_Remove_def emit_def)

lemma new_events_append [simp]: "trace s' = trace s @ evs \<Longrightarrow> new_events s s' = evs"
  by (simp add: new_events_def)

lemma Execute_events:
  "\<exists>evs. trace (snd (Execute pk cmd s)) = trace s @ evs \<and> within 0 7 evs"
proof (cases "Experimental (Config cmd) \<and> PathURLOrPluginName (OptionalArgs cmd) \<noteq> []")
  case False
  then show ?thesis
    by (auto simp: Execute_def emit_def within_def)
next
  case True
  define p where "p = PathURLOrPluginName (OptionalArgs cmd)"
  with True have exp: "Experimental (Config cmd)" and p: "p = PathURLOrPluginName (OptionalArgs cmd)"
    and ne: "p \<noteq> []"
    by simp_all
  obtain r s1 where prep: "preparePluginForInstallation pk cmd p s = (r, s1)"
    by (metis surj_pair)
  obtain evs where evs: "trace s1 = trace s @ evs" "within 0 2 evs"
    using prepare_events [of pk cmd p s] prep by auto
  have rm: "within 7 7 [E_Remove tmp]" for tmp
    by (simp add: within_def)
  show ?thesis
  proof (cases r)
    case Panicked
    with Execute_panicked [OF exp p ne] prep evs show ?thesis
      by (auto intro: within_mono)
  next
    case (Returned res)
    obtain tmp err where res: "res = (tmp, err)"
      by (metis surj_pair)
    show ?thesis
    proof (cases err)
      case (Some e)
      from within_append [OF evs(2) rm] have "within 0 7 (evs @ [E_Remove tmp])"
        by simp
      with Execute_prepare_failed [OF exp p ne, of pk s tmp e s1] prep Returned res Some evs
      show ?thesis
        by (simp add: os_Remove_run)
    next
      case None
      obtain evs' where evs': "trace (snd (Execute_deferred_body pk cmd p tmp s1)) = trace s1 @ evs'"
        "within 3 6 evs'"
        using body_events [of pk cmd p tmp s1] by auto
      from within_append [OF evs(2) evs'(2)] have "within 0 6 (evs @ evs')"
        by simp
      from within_append [OF this rm] have "within 0 7 ((evs @ evs') @ [E_Remove tmp])"
        by simp
      with Execute_prepared [OF exp p ne, of pk s tmp s1] prep Returned res None evs evs'
      show ?thesis
        by (simp add: os_Remove_run)
    qed
  qed
qed

subsection \<open>The order of the states\<close>

lemma Execute_ranks_sorted:
  "sorted (map code_rank (states_of (new_events s (snd (Execute pk cmd s)))))"
proof -
  obtain evs where "trace (snd (Execute pk cmd s)) = trace s @ evs" and "within 0 7 evs"
    using Execute_events by blast
  then show ?thesis
    by (simp add: within_def ranks_def)
qed

lemma within_no_remove: "within lo hi evs \<Longrightarrow> hi < 7 \<Longrightarrow> filter is_remove evs = []"
proof (induction evs)
  case Nil
  then show ?case by simp
next
  case (Cons e evs)
  then show ?case
    by (cases e) (auto simp: within_def)
qed

lemma states_of_Nil [simp]: "states_of [] = []"
  by (simp add: states_of_def map_filter_simps)

lemma states_of_Cons [simp]:
  "states_of (e # evs) = (case state_of e of None \<Rightarrow> states_of evs | Some st \<Rightarrow> st # states_of evs)"
  by (simp add: states_of_def map_filter_simps split: option.splits)

lemma states_of_append [simp]: "states_of (xs @ ys) = states_of xs @ states_of ys"
  by (induction xs) (simp_all split: option.splits)

lemma follows_snoc:
  "xs \<noteq> [] \<Longrightarrow> follows (xs @ [y]) \<longleftrightarrow> follows xs \<and> (last xs = y \<or> step (last xs) y)"
  by (induction xs rule: follows.induct) auto

lemma follows_append:
  "xs \<noteq> [] \<Longrightarrow> follows (xs @ y # ys) \<longleftrightarrow>
     follows xs \<and> (last xs = y \<or> step (last xs) y) \<and> follows (y # ys)"
  by (induction xs rule: follows.induct) auto

lemma walk_append:
  assumes "walk a xs b" and "walk c ys d" and "b = c \<or> step b c"
  shows "walk a (xs @ ys) d"
proof -
  obtain sts where x: "states_of xs = a # sts" "last (a # sts) = b" "follows (a # sts)"
    using assms(1) unfolding walk_def by blast
  obtain sts' where y: "states_of ys = c # sts'" "last (c # sts') = d" "follows (c # sts')"
    using assms(2) unfolding walk_def by blast
  have "states_of (xs @ ys) = a # (sts @ c # sts')"
    using x(1) y(1) by simp
  moreover have "last (a # (sts @ c # sts')) = d"
    using y(2) by simp
  moreover have "follows ((a # sts) @ c # sts')"
    using follows_append [of "a # sts" c sts'] x(2,3) y(3) assms(3) by simp
  then have "follows (a # (sts @ c # sts'))"
    by simp
  ultimately show ?thesis
    unfolding walk_def by blast
qed

lemma walk_quiet:
  assumes "walk a xs b" and "states_of ys = []"
  shows "walk a (xs @ ys) b"
  using assms unfolding walk_def by simp

lemma walk_one: "state_of e = Some a \<Longrightarrow> walk a [e] a"
  by (simp add: walk_def)

lemma walk_set:
  "walk a xs b \<Longrightarrow> a \<in> set (states_of xs) \<and> b \<in> set (states_of xs)"
  unfolding walk_def by (metis last_in_set list.distinct(1) list.set_intros(1))


lemma step_Cleanup: "b \<noteq> Cleanup \<Longrightarrow> step b Cleanup"
  by (cases b) simp_all

lemma walk_confirmation:
  "walk AwaitingConfirmation (confirmation cmd prompt path) AwaitingConfirmation"
  by (simp add: walk_def confirmation_def warning_def)

lemma walk_resolving_confirmation:
  assumes "es = [] \<or> es = [E_FileExists p]"
  shows "walk Resolving ((E_DeterminePathType p # es) @ confirmation cmd prompt path)
           AwaitingConfirmation"
proof -
  have "walk Resolving (E_DeterminePathType p # es) Resolving"
    using assms by (auto simp: walk_def)
  then show ?thesis
    by (rule walk_append [OF _ walk_confirmation, where b = Resolving]) simp
qed

lemma prepare_walk:
  assumes prep: "preparePluginForInstallation pk cmd p s = (r, s1)"
  shows "\<exists>evs b. trace s1 = trace s @ evs \<and> walk Resolving evs b
           \<and> (b = Resolving \<or> b = AwaitingConfirmation \<or> b = Staging)
           \<and> (r = Panicked \<longrightarrow> b = Staging)
           \<and> (\<forall>tmp. r = Returned (tmp, None) \<longrightarrow>
                 b = Staging \<and> AwaitingConfirmation \<in> set (states_of evs))"
proof (cases "DeterminePathType pk p (env s)")
  case PluginUnsupportedPathType
  then have "preparePluginForInstallation pk cmd p s =
               (Returned ([], Some (UnsupportedURLSchemeError p)),
                s\<lparr>trace := trace s @ [E_DeterminePathType p]\<rparr>)"
    by (simp add: prepare_unsupported)
  with prep have "trace s1 = trace s @ [E_DeterminePathType p]"
    and "r = Returned ([], Some (UnsupportedURLSchemeError p))"
    by auto
  moreover have "walk Resolving [E_DeterminePathType p] Resolving"
    by (simp add: walk_def)
  ultimately show ?thesis
    by blast
next
  case PluginFilePath
  show ?thesis
  proof (cases "FileExists (Actor cmd) p (env s)")
    case False
    from prepare_file_missing [OF PluginFilePath False] prep
    have "trace s1 = trace s @ [E_DeterminePathType p, E_FileExists p]"
      and "r = Returned ([], Some (FileNotFoundError p))"
      by auto
    moreover have "walk Resolving [E_DeterminePathType p, E_FileExists p] Resolving"
      by (simp add: walk_def)
    ultimately show ?thesis
      by blast
  next
    case True
    let ?pre = "[E_DeterminePathType p, E_FileExists p] @ confirmation cmd prompt_file p"
    have c: "walk Resolving ?pre AwaitingConfirmation"
      by (rule walk_resolving_confirmation) simp
    show ?thesis
    proof (cases "fst (promptForInstallPlugin cmd prompt_file p s)")
      case (Some e)
      from prepare_file_refused [OF PluginFilePath True Some] prep
      have "trace s1 = trace s @ ?pre" and "r = Returned ([], Some e)"
        by auto
      with c show ?thesis
        by blast
    next
      case None
      from prepare_file_confirmed [OF PluginFilePath True None] prep
      have t: "trace s1 = trace s @ (?pre @ [E_CreateExecutableCopy p])"
        by auto
      have w: "walk Resolving (?pre @ [E_CreateExecutableCopy p]) Staging"
        by (rule walk_append [OF c, where c = Staging]) (simp_all add: walk_def)
      have "AwaitingConfirmation \<in> set (states_of (?pre @ [E_CreateExecutableCopy p]))"
        using walk_set [OF c] by simp
      with t w show ?thesis
        by blast
    qed
  qed
next
  case PluginHTTPPath
  let ?pre = "[E_DeterminePathType p] @ confirmation cmd prompt_url p"
  have c: "walk Resolving ?pre AwaitingConfirmation"
    by (rule walk_resolving_confirmation) simp
  show ?thesis
  proof (cases "fst (promptForInstallPlugin cmd prompt_url p s)")
    case (Some e)
    from prepare_http_refused [OF PluginHTTPPath Some] prep
    have "trace s1 = trace s @ ?pre" and "r = Returned ([], Some e)"
      by auto
    with c show ?thesis
      by blast
  next
    case None
    obtain dp ferr w where f: "FetchPluginFromURL (Actor cmd) p (env s) = ((dp, ferr), w)"
      by (metis surj_pair)
    let ?dl = "[E_DisplayText text_starting_download [], E_FetchPluginFromURL p, E_Stat dp]"
    have w1: "walk Resolving (?pre @ ?dl) Staging"
      by (rule walk_append [OF c, where c = Staging]) (simp_all add: walk_def)
    have a1: "AwaitingConfirmation \<in> set (states_of (?pre @ ?dl))"
      using walk_set [OF c] by simp
    note e = prepare_http_confirmed [OF PluginHTTPPath None f refl]
    show ?thesis
    proof (cases "files w dp")
      case None
      with e prep have "trace s1 = trace s @ (?pre @ ?dl)" and "r = Panicked"
        by auto
      with w1 show ?thesis
        by blast
    next
      case (Some sz)
      let ?b = "[E_DisplayText text_bytes_downloaded [(''Bytes'', TInt sz)]]"
      from Some e prep have t: "trace s1 = trace s @ ((?pre @ ?dl) @ ?b)"
        by auto
      have w2: "walk Resolving ((?pre @ ?dl) @ ?b) Staging"
        by (rule walk_quiet [OF w1]) simp
      have "AwaitingConfirmation \<in> set (states_of ((?pre @ ?dl) @ ?b))"
        using a1 by simp
      with t w2 show ?thesis
        by blast
    qed
  qed
qed


lemma installPlugin_walk:
  "\<exists>evs. trace (snd (installPlugin pk cmd plugin path s)) = trace s @ evs
         \<and> walk Committing evs Committing"
proof -
  obtain ierr w where "InstallPluginFromPath (Actor cmd) path plugin (env s) = (ierr, w)"
    by (metis surj_pair)
  from installPlugin_run [OF this] show ?thesis
    by (simp add: walk_def)
qed

lemma body_walk:
  "\<exists>evs b. trace (snd (Execute_deferred_body pk cmd p tmp s1)) = trace s1 @ evs
           \<and> walk Validating evs b \<and> b \<noteq> Cleanup
           \<and> (fst (Execute_deferred_body pk cmd p tmp s1) = None \<longrightarrow>
                 b = Committing \<and> ConflictCheck \<in> set (states_of evs))"
proof -
  obtain rpc rerr w2 where r: "NewRPCService pk (env s1) = ((rpc, rerr), w2)"
    by (metis surj_pair)
  show ?thesis
  proof (cases rerr)
    case (Some e)
    with r have "NewRPCService pk (env s1) = ((rpc, Some e), w2)"
      by simp
    from body_rpc_error [OF this, where cmd = cmd and p = p and tmp = tmp]
    have "trace (snd (Execute_deferred_body pk cmd p tmp s1)) = trace s1 @ [E_NewRPCService]"
      and "fst (Execute_deferred_body pk cmd p tmp s1) = Some e"
      by simp_all
    moreover have "walk Validating [E_NewRPCService] Validating"
      by (simp add: walk_def)
    ultimately show ?thesis
      by (intro exI [of _ "[E_NewRPCService]"] exI [of _ Validating]) simp
  next
    case None
    note r = r [unfolded None]
    obtain plugin verr w3 where
      v: "GetAndValidatePlugin (Actor cmd) rpc (Commands pk) tmp w2 = ((plugin, verr), w3)"
      by (metis surj_pair)
    let ?pre = "[E_NewRPCService, E_GetAndValidatePlugin tmp, E_IsPluginInstalled (Name plugin)]"
    let ?s4 = "\<lparr>env = w3, trace = trace s1 @ ?pre\<rparr>"
    have pre: "walk Validating ?pre ConflictCheck"
      by (simp add: walk_def)
    show ?thesis
    proof (cases verr)
      case (Some e)
      with v have "GetAndValidatePlugin (Actor cmd) rpc (Commands pk) tmp w2 = ((plugin, Some e), w3)"
        by simp
      from body_invalid [OF r this, where p = p]
      have "trace (snd (Execute_deferred_body pk cmd p tmp s1)) =
              trace s1 @ [E_NewRPCService, E_GetAndValidatePlugin tmp]"
        and "fst (Execute_deferred_body pk cmd p tmp s1) \<noteq> None"
        by simp_all
      moreover have "walk Validating [E_NewRPCService, E_GetAndValidatePlugin tmp] Validating"
        by (simp add: walk_def)
      ultimately show ?thesis
        by (intro exI [of _ "[E_NewRPCService, E_GetAndValidatePlugin tmp]"] exI [of _ Validating])
           simp
    next
      case None
      note v = v [unfolded None]
      have inst: ?thesis
        if b: "Execute_deferred_body pk cmd p tmp s1 = installPlugin pk cmd plugin tmp s"
          and t: "trace s = trace s1 @ ?pre @ evs"
          and w: "walk Validating (?pre @ evs) c" and c: "c = ConflictCheck \<or> c = Uninstalling"
        for s evs c
      proof -
        obtain evs' where e': "trace (snd (installPlugin pk cmd plugin tmp s)) = trace s @ evs'"
          "walk Committing evs' Committing"
          using installPlugin_walk by blast
        have "walk Validating ((?pre @ evs) @ evs') Committing"
          using w e'(2) by (rule walk_append) (use c in auto)
        moreover have "ConflictCheck \<in> set (states_of ((?pre @ evs) @ evs'))"
          by simp
        moreover have "trace (snd (Execute_deferred_body pk cmd p tmp s1)) =
                         trace s1 @ ((?pre @ evs) @ evs')"
          using b t e'(1) by simp
        ultimately show ?thesis
          by (intro exI [of _ "(?pre @ evs) @ evs'"] exI [of _ Committing]) simp
      qed
      show ?thesis
      proof (cases "IsPluginInstalled (Actor cmd) (Name plugin) w3")
        case False
        have t: "trace ?s4 = trace s1 @ ?pre @ []"
          by simp
        have w: "walk Validating (?pre @ []) ConflictCheck"
          using pre by simp
        from body_fresh [OF r v False, where p = p] t w show ?thesis
          by (rule inst) simp
      next
        case True
        show ?thesis
        proof (cases "Force cmd")
          case False
          from body_already_installed [OF r v True False, where p = p]
          have "trace (snd (Execute_deferred_body pk cmd p tmp s1)) = trace s1 @ ?pre"
            and "fst (Execute_deferred_body pk cmd p tmp s1) \<noteq> None"
            by simp_all
          with pre show ?thesis
            by (intro exI [of _ ?pre] exI [of _ ConflictCheck]) simp
        next
          case Force: True
          obtain uerr w4 where un: "UninstallPlugin (Actor cmd) rpc (Name plugin) (env ?s4) = (uerr, w4)"
            by (metis surj_pair)
          let ?u = "[E_DisplayText text_already_installed
                       [(''Name'', TString (Name plugin)),
                        (''Version'', TString (Version_String pk (Version plugin)))],
                     E_UninstallPlugin (Name plugin)] @
                    (if uerr = None
                     then [E_DisplayOK,
                           E_DisplayText text_uninstalled [(''Name'', TString (Name plugin))]]
                     else [])"
          let ?s5 = "\<lparr>env = w4, trace = trace ?s4 @ ?u\<rparr>"
          have u: "uninstallPlugin pk cmd plugin rpc ?s4 = (uerr, ?s5)"
            by (rule uninstallPlugin_run [OF un])
          have wu: "walk Validating (?pre @ ?u) Uninstalling"
            by (rule walk_append [OF pre, where c = Uninstalling]) (simp_all add: walk_def)
          note b = body_force [OF r v True Force u, where p = p]
          show ?thesis
          proof (cases uerr)
            case None
            with b have "Execute_deferred_body pk cmd p tmp s1 = installPlugin pk cmd plugin tmp ?s5"
              by simp
            moreover have "trace ?s5 = trace s1 @ ?pre @ ?u"
              by simp
            ultimately show ?thesis
              using wu by (rule inst) simp
          next
            case (Some e')
            with b have "trace (snd (Execute_deferred_body pk cmd p tmp s1)) = trace s1 @ (?pre @ ?u)"
              and "fst (Execute_deferred_body pk cmd p tmp s1) \<noteq> None"
              by simp_all
            with wu show ?thesis
              by (intro exI [of _ "?pre @ ?u"] exI [of _ Uninstalling]) simp
          qed
        qed
      qed
    qed
  qed
qed


lemma walk_states:
  assumes "walk Resolving evs b"
  obtains sts where "states_of evs = Resolving # sts" and "follows (Resolving # sts)"
    and "last (Resolving # sts) = b"
  using assms unfolding walk_def by blast

text \<open>
  C6 (as amended). Every install attempt with the experimental flag on and a non-empty
  argument starts in Resolving and moves through the states one transition at a time:
  forward along Resolving, AwaitingConfirmation, Staging, Validating, ConflictCheck,
  Uninstalling (which may be left out), Committing, with no other state skipped and no
  step back, or from any of them to the cleanup of the staged binary. So the warning
  and the prompt come before the binary is copied or downloaded, never after. An
  attempt that returns ends in the cleanup, and one that returns success has passed
  through AwaitingConfirmation, Staging, Validating, ConflictCheck and Committing. The
  only attempt that does not return is the panic of the download branch, which stops in
  Staging.
\<close>

theorem Execute_walks_the_states:
  assumes exp: "Experimental (Config cmd)"
    and ne: "PathURLOrPluginName (OptionalArgs cmd) \<noteq> []"
  shows "\<exists>sts.
           states_of (new_events s (snd (Execute pk cmd s))) = Resolving # sts
         \<and> follows (Resolving # sts)
         \<and> (fst (Execute pk cmd s) = Panicked \<and> last (Resolving # sts) = Staging
              \<or> (\<exists>r. fst (Execute pk cmd s) = Returned r) \<and> last (Resolving # sts) = Cleanup)
         \<and> (fst (Execute pk cmd s) = Returned None \<longrightarrow>
               set [AwaitingConfirmation, Staging, Validating, ConflictCheck, Committing]
                 \<subseteq> set sts)"
proof -
  define p where "p = PathURLOrPluginName (OptionalArgs cmd)"
  have p: "p = PathURLOrPluginName (OptionalArgs cmd)" and ne': "p \<noteq> []"
    using ne by (simp_all add: p_def)
  obtain r s1 where prep: "preparePluginForInstallation pk cmd p s = (r, s1)"
    by (metis surj_pair)
  obtain evs b where evs: "trace s1 = trace s @ evs" and w: "walk Resolving evs b"
    and b: "b = Resolving \<or> b = AwaitingConfirmation \<or> b = Staging"
    and pan: "r = Panicked \<longrightarrow> b = Staging"
    and ok: "\<forall>tmp. r = Returned (tmp, None) \<longrightarrow>
               b = Staging \<and> AwaitingConfirmation \<in> set (states_of evs)"
    using prepare_walk [OF prep] by blast
  have rm: "walk Cleanup [E_Remove tmp] Cleanup" for tmp
    by (simp add: walk_def)
  show ?thesis
  proof (cases r)
    case Panicked
    with Execute_panicked [OF exp p ne' prep [unfolded Panicked]] evs
    have e: "new_events s (snd (Execute pk cmd s)) = evs" "fst (Execute pk cmd s) = Panicked"
      by simp_all
    from w pan Panicked obtain sts where "states_of evs = Resolving # sts"
      "follows (Resolving # sts)" "last (Resolving # sts) = Staging"
      by (auto elim: walk_states)
    with e show ?thesis
      by auto
  next
    case (Returned res)
    obtain tmp err where res: "res = (tmp, err)"
      by (metis surj_pair)
    show ?thesis
    proof (cases err)
      case (Some e)
      from Execute_prepare_failed [OF exp p ne', of pk s tmp e s1] prep Returned res Some evs
      have t: "trace (snd (Execute pk cmd s)) = trace s @ (evs @ [E_Remove tmp])"
        and f: "fst (Execute pk cmd s) = Returned (Some e)"
        by (simp_all add: os_Remove_run)
      have "walk Resolving (evs @ [E_Remove tmp]) Cleanup"
        using w rm by (rule walk_append) (use b in auto)
      then obtain sts where "states_of (evs @ [E_Remove tmp]) = Resolving # sts"
        "follows (Resolving # sts)" "last (Resolving # sts) = Cleanup"
        by (rule walk_states)
      with new_events_append [OF t] f show ?thesis
        by auto
    next
      case None
      from ok Returned res None have bs: "b = Staging"
        and a: "AwaitingConfirmation \<in> set (states_of evs)"
        by simp_all
      obtain evs' b' where evs': "trace (snd (Execute_deferred_body pk cmd p tmp s1)) = trace s1 @ evs'"
        and w': "walk Validating evs' b'" and b': "b' \<noteq> Cleanup"
        and fin: "fst (Execute_deferred_body pk cmd p tmp s1) = None \<longrightarrow>
                     b' = Committing \<and> ConflictCheck \<in> set (states_of evs')"
        using body_walk [of pk cmd p tmp s1] by (elim exE conjE) (rule that)
      from Execute_prepared [OF exp p ne', of pk s tmp s1] prep Returned res None evs evs'
      have t: "trace (snd (Execute pk cmd s)) = trace s @ ((evs @ evs') @ [E_Remove tmp])"
        and f: "fst (Execute pk cmd s) = Returned (fst (Execute_deferred_body pk cmd p tmp s1))"
        by (simp_all add: os_Remove_run)
      have "walk Resolving (evs @ evs') b'"
        using w w' by (rule walk_append) (simp add: bs)
      then have "walk Resolving ((evs @ evs') @ [E_Remove tmp]) Cleanup"
        using rm by (rule walk_append) (simp add: step_Cleanup [OF b'])
      then obtain sts where sts: "states_of ((evs @ evs') @ [E_Remove tmp]) = Resolving # sts"
        "follows (Resolving # sts)" "last (Resolving # sts) = Cleanup"
        by (rule walk_states)
      have "set [AwaitingConfirmation, Staging, Validating, ConflictCheck, Committing] \<subseteq> set sts"
        if "fst (Execute pk cmd s) = Returned None"
      proof -
        from that f fin have "b' = Committing" and c: "ConflictCheck \<in> set (states_of evs')"
          by simp_all
        with walk_set [OF w'] have "Validating \<in> set (states_of evs')"
          and "Committing \<in> set (states_of evs')"
          by simp_all
        moreover from walk_set [OF w] bs have "Staging \<in> set (states_of evs)"
          by simp
        ultimately have "set [AwaitingConfirmation, Staging, Validating, ConflictCheck, Committing]
                           \<subseteq> set (states_of ((evs @ evs') @ [E_Remove tmp]))"
          using a c by simp
        then show ?thesis
          unfolding sts(1) by auto
      qed
      with sts new_events_append [OF t] f show ?thesis
        by auto
    qed
  qed
qed

lemma prepare_run_events:
  assumes "preparePluginForInstallation pk cmd p s = (r, s1)"
  obtains evs where "trace s1 = trace s @ evs" and "filter registry_call evs = []"
  using prepare_events [of pk cmd p s] assms by auto

subsection \<open>A plugin that is already installed\<close>

lemma Execute_already_installed:
  assumes exp: "Experimental (Config cmd)"
    and p: "p = PathURLOrPluginName (OptionalArgs cmd)" and ne: "p \<noteq> []"
    and prep: "preparePluginForInstallation pk cmd p s = (Returned (tmp, None), s1)"
    and rpc: "NewRPCService pk (env s1) = ((rpc, None), w2)"
    and val: "GetAndValidatePlugin (Actor cmd) rpc (Commands pk) tmp w2 = ((plugin, None), w3)"
    and inst: "IsPluginInstalled (Actor cmd) (Name plugin) w3"
    and nf: "\<not> Force cmd"
  shows "Execute pk cmd s =
           (Returned (Some (PluginAlreadyInstalledError (Name plugin)
                              (Version_String pk (Version plugin)) p)),
            \<lparr>env = os_Remove_world tmp w3,
             trace = trace s1 @ [E_NewRPCService, E_GetAndValidatePlugin tmp,
                                 E_IsPluginInstalled (Name plugin), E_Remove tmp]\<rparr>)"
  by (simp add: Execute_prepared [OF exp p ne prep]
        body_already_installed [OF rpc val inst nf] os_Remove_run)

lemma Execute_forced:
  assumes exp: "Experimental (Config cmd)"
    and p: "p = PathURLOrPluginName (OptionalArgs cmd)" and ne: "p \<noteq> []"
    and prep: "preparePluginForInstallation pk cmd p s = (Returned (tmp, None), s1)"
    and rpc: "NewRPCService pk (env s1) = ((rpc, None), w2)"
    and val: "GetAndValidatePlugin (Actor cmd) rpc (Commands pk) tmp w2 = ((plugin, None), w3)"
    and inst: "IsPluginInstalled (Actor cmd) (Name plugin) w3"
    and force: "Force cmd"
    and un: "UninstallPlugin (Actor cmd) rpc (Name plugin) w3 = (uerr, w4)"
    and ins: "InstallPluginFromPath (Actor cmd) tmp plugin w4 = (ierr, w5)"
  shows "Execute pk cmd s =
           (Returned (if uerr \<noteq> None then uerr else ierr),
            \<lparr>env = os_Remove_world tmp (if uerr \<noteq> None then w4 else w5),
             trace = trace s1 @
               [E_NewRPCService, E_GetAndValidatePlugin tmp, E_IsPluginInstalled (Name plugin),
                E_DisplayText text_already_installed
                  [(''Name'', TString (Name plugin)),
                   (''Version'', TString (Version_String pk (Version plugin)))],
                E_UninstallPlugin (Name plugin)] @
               (if uerr \<noteq> None then []
                else [E_DisplayOK,
                      E_DisplayText text_uninstalled [(''Name'', TString (Name plugin))],
                      E_DisplayTextWithFlavor text_installing [(''Name'', TString (Name plugin))],
                      E_InstallPluginFromPath tmp (Name plugin)] @
                     (if ierr = None
                      then [E_DisplayOK,
                            E_DisplayTextWithFlavor text_installed
                              [(''Name'', TString (Name plugin)),
                               (''Version'', TString (Version_String pk (Version plugin)))]]
                      else [])) @
               [E_Remove tmp]\<rparr>)"
proof -
  let ?s4 = "\<lparr>env = w3, trace = trace s1 @ [E_NewRPCService, E_GetAndValidatePlugin tmp,
                                            E_IsPluginInstalled (Name plugin)]\<rparr>"
  define s5 where "s5 =
     \<lparr>env = w4,
      trace = trace ?s4 @
         [E_DisplayText text_already_installed
            [(''Name'', TString (Name plugin)),
             (''Version'', TString (Version_String pk (Version plugin)))],
          E_UninstallPlugin (Name plugin)] @
         (if uerr = None
          then [E_DisplayOK, E_DisplayText text_uninstalled [(''Name'', TString (Name plugin))]]
          else [])\<rparr>"
  have u: "uninstallPlugin pk cmd plugin rpc ?s4 = (uerr, s5)"
    unfolding s5_def by (rule uninstallPlugin_run) (simp add: un)
  note b = body_force [OF rpc val inst force u, where p = p]
  note e = Execute_prepared [OF exp p ne prep]
  show ?thesis
  proof (cases uerr)
    case (Some x)
    with b e show ?thesis
      by (simp add: os_Remove_run s5_def)
  next
    case None
    have i: "InstallPluginFromPath (Actor cmd) tmp plugin (env s5) = (ierr, w5)"
      using ins by (simp add: s5_def)
    from b e None installPlugin_run [OF i, of pk] show ?thesis
      by (simp add: os_Remove_run s5_def)
  qed
qed

text \<open>
  C1 (as amended). With the experimental flag on and a non-empty argument, when the
  preparation has handed back a staged path without error, the RPC service has been
  created, the staged binary has been validated as \<open>plugin\<close>, the actor reports the name
  of \<open>plugin\<close> as installed and the force flag is not set, \<open>Execute\<close> returns
  \<^verbatim>\<open>PluginAlreadyInstalledError\<close> with the name of \<open>plugin\<close>, the version of \<open>plugin\<close>
  (the binary being installed, not the installed entry, whose version the actor interface
  does not give) and the path the user gave. After the conflict check it only calls
  \<^verbatim>\<open>os.Remove\<close> on the staged path: it calls neither \<open>UninstallPlugin\<close> nor
  \<open>InstallPluginFromPath\<close>, the registry is the one the validation left, and so is every
  file but the staged one.
\<close>

theorem already_installed_without_force:
  assumes exp: "Experimental (Config cmd)"
    and p: "p = PathURLOrPluginName (OptionalArgs cmd)" and ne: "p \<noteq> []"
    and prep: "preparePluginForInstallation pk cmd p s = (Returned (tmp, None), s1)"
    and rpc: "NewRPCService pk (env s1) = ((rpc, None), w2)"
    and val: "GetAndValidatePlugin (Actor cmd) rpc (Commands pk) tmp w2 = ((plugin, None), w3)"
    and inst: "IsPluginInstalled (Actor cmd) (Name plugin) w3"
    and nf: "\<not> Force cmd"
  shows "Execute pk cmd s =
           (Returned (Some (PluginAlreadyInstalledError (Name plugin)
                              (Version_String pk (Version plugin)) p)),
            \<lparr>env = os_Remove_world tmp w3,
             trace = trace s1 @ [E_NewRPCService, E_GetAndValidatePlugin tmp,
                                 E_IsPluginInstalled (Name plugin), E_Remove tmp]\<rparr>)
         \<and> filter registry_call (new_events s (snd (Execute pk cmd s))) = []
         \<and> plugins (env (snd (Execute pk cmd s))) = plugins w3
         \<and> files (env (snd (Execute pk cmd s))) =
             (if tmp = [] \<or> tmp \<in> protected w3 then files w3 else (files w3)(tmp := None))"
proof -
  obtain evs where evs: "trace s1 = trace s @ evs" "filter registry_call evs = []"
    using prep by (rule prepare_run_events)
  note ex = Execute_already_installed [OF exp p ne prep rpc val inst nf]
  have "trace (snd (Execute pk cmd s)) =
          trace s @ evs @ [E_NewRPCService, E_GetAndValidatePlugin tmp,
                           E_IsPluginInstalled (Name plugin), E_Remove tmp]"
    by (simp add: ex evs)
  then have "filter registry_call (new_events s (snd (Execute pk cmd s))) = []"
    by (simp add: evs)
  with ex show ?thesis
    by (simp add: os_Remove_world_def)
qed

text \<open>
  C2. In the same situation with the force flag set, \<open>Execute\<close> calls \<open>UninstallPlugin\<close>
  for the name first. If that fails, its error is returned and \<open>InstallPluginFromPath\<close>
  is never called: the world is the one the failed uninstall left, less the staged file.
  If it succeeds, \<open>InstallPluginFromPath\<close> runs next, on the world the uninstall
  produced, and its result is returned.
\<close>

theorem force_reinstall_uninstalls_first:
  assumes exp: "Experimental (Config cmd)"
    and p: "p = PathURLOrPluginName (OptionalArgs cmd)" and ne: "p \<noteq> []"
    and prep: "preparePluginForInstallation pk cmd p s = (Returned (tmp, None), s1)"
    and rpc: "NewRPCService pk (env s1) = ((rpc, None), w2)"
    and val: "GetAndValidatePlugin (Actor cmd) rpc (Commands pk) tmp w2 = ((plugin, None), w3)"
    and inst: "IsPluginInstalled (Actor cmd) (Name plugin) w3"
    and force: "Force cmd"
    and un: "UninstallPlugin (Actor cmd) rpc (Name plugin) w3 = (uerr, w4)"
    and ins: "InstallPluginFromPath (Actor cmd) tmp plugin w4 = (ierr, w5)"
  shows "fst (Execute pk cmd s) = Returned (if uerr \<noteq> None then uerr else ierr)
         \<and> env (snd (Execute pk cmd s)) = os_Remove_world tmp (if uerr \<noteq> None then w4 else w5)
         \<and> filter registry_call (new_events s (snd (Execute pk cmd s))) =
             E_UninstallPlugin (Name plugin) #
               (if uerr \<noteq> None then [] else [E_InstallPluginFromPath tmp (Name plugin)])"
proof -
  obtain evs where evs: "trace s1 = trace s @ evs" "filter registry_call evs = []"
    using prep by (rule prepare_run_events)
  note ex = Execute_forced [OF exp p ne prep rpc val inst force un ins]
  have "\<exists>rest. trace (snd (Execute pk cmd s)) = trace s @ evs @ rest
          \<and> filter registry_call rest =
              E_UninstallPlugin (Name plugin) #
                (if uerr \<noteq> None then [] else [E_InstallPluginFromPath tmp (Name plugin)])"
    by (simp add: ex evs)
  then have "filter registry_call (new_events s (snd (Execute pk cmd s))) =
             E_UninstallPlugin (Name plugin) #
               (if uerr \<noteq> None then [] else [E_InstallPluginFromPath tmp (Name plugin)])"
    using evs(2) by auto
  with ex show ?thesis
    by simp
qed

subsection \<open>The staged binary\<close>

text \<open>
  C3 (as amended). With the experimental flag on and a non-empty argument, whenever the
  preparation returns (with or without an error; on cancellation the path it hands back
  is empty), \<open>Execute\<close> returns and calls \<^verbatim>\<open>os.Remove\<close> exactly once, as its last call,
  on the path the preparation handed back, discarding the result. Afterwards that path
  is not on disk, unless it is empty or the operating system refused the removal.
\<close>

theorem staged_path_removed_last:
  assumes exp: "Experimental (Config cmd)"
    and p: "p = PathURLOrPluginName (OptionalArgs cmd)" and ne: "p \<noteq> []"
    and prep: "fst (preparePluginForInstallation pk cmd p s) = Returned (tmp, err)"
  shows "(\<exists>r. fst (Execute pk cmd s) = Returned r)
         \<and> filter is_remove (new_events s (snd (Execute pk cmd s))) = [E_Remove tmp]
         \<and> last (trace (snd (Execute pk cmd s))) = E_Remove tmp
         \<and> (files (env (snd (Execute pk cmd s))) tmp = None
              \<or> tmp = []
              \<or> tmp \<in> protected (env (snd (Execute pk cmd s))))"
proof -
  obtain s1 where prep': "preparePluginForInstallation pk cmd p s = (Returned (tmp, err), s1)"
    using prep by (metis prod.collapse)
  obtain evs where evs: "trace s1 = trace s @ evs" "within 0 2 evs"
    using prepare_events [of pk cmd p s] prep' by auto
  have nr: "filter is_remove evs = []"
    using evs(2) by (rule within_no_remove) simp
  show ?thesis
  proof (cases err)
    case (Some e)
    have "trace (snd (Execute pk cmd s)) = trace s @ (evs @ [E_Remove tmp])"
      using Execute_prepare_failed [OF exp p ne, of pk s tmp e s1] prep' Some evs
      by (simp add: os_Remove_run)
    then have "new_events s (snd (Execute pk cmd s)) = evs @ [E_Remove tmp]"
      by (rule new_events_append)
    with Execute_prepare_failed [OF exp p ne, of pk s tmp e s1] prep' Some nr show ?thesis
      by (auto simp: os_Remove_run os_Remove_world_def)
  next
    case None
    obtain evs' where evs': "trace (snd (Execute_deferred_body pk cmd p tmp s1)) = trace s1 @ evs'"
      "within 3 6 evs'"
      using body_events [of pk cmd p tmp s1] by auto
    have nr': "filter is_remove evs' = []"
      using evs'(2) by (rule within_no_remove) simp
    have "trace (snd (Execute pk cmd s)) = trace s @ (evs @ evs' @ [E_Remove tmp])"
      using Execute_prepared [OF exp p ne, of pk s tmp s1] prep' None evs evs'
      by (simp add: os_Remove_run)
    then have "new_events s (snd (Execute pk cmd s)) = evs @ evs' @ [E_Remove tmp]"
      by (rule new_events_append)
    with Execute_prepared [OF exp p ne, of pk s tmp s1] prep' None nr nr' show ?thesis
      by (auto simp: os_Remove_run os_Remove_world_def)
  qed
qed

lemma prompt_None_iff:
  "fst (promptForInstallPlugin cmd prompt path s) = None \<longleftrightarrow>
     Force cmd \<or>
     DisplayBoolPrompt (UI cmd) False prompt [(''Path'', TString path)] (env s) = (True, None)"
  by (auto simp: promptForInstallPlugin_result split: prod.splits)

lemma Execute_after_prepare_events:
  assumes exp: "Experimental (Config cmd)"
    and p: "p = PathURLOrPluginName (OptionalArgs cmd)" and ne: "p \<noteq> []"
    and prep: "preparePluginForInstallation pk cmd p s = (r, s1)"
  shows "\<exists>rest. trace (snd (Execute pk cmd s)) = trace s1 @ rest
           \<and> filter staging rest = [] \<and> filter is_prompt rest = []"
proof (cases r)
  case Panicked
  with Execute_panicked [OF exp p ne, of pk s s1] prep show ?thesis
    by simp
next
  case (Returned res)
  obtain tmp err where res: "res = (tmp, err)"
    by (metis surj_pair)
  show ?thesis
  proof (cases err)
    case (Some e)
    with Execute_prepare_failed [OF exp p ne, of pk s tmp e s1] prep Returned res show ?thesis
      by (simp add: os_Remove_run)
  next
    case None
    obtain evs where "trace (snd (Execute_deferred_body pk cmd p tmp s1)) = trace s1 @ evs"
      "filter staging evs = []" "filter is_prompt evs = []"
      using body_events [of pk cmd p tmp s1] by auto
    with Execute_prepared [OF exp p ne, of pk s tmp s1] prep Returned res None show ?thesis
      by (simp add: os_Remove_run)
  qed
qed

lemma staging_confirmation [simp]: "filter staging (confirmation cmd prompt path) = []"
  by (simp add: confirmation_def warning_def)

subsection \<open>Warning and confirmation\<close>

text \<open>
  C7. For a URL, and for a local path that exists, the run starts with the
  classification of the argument, then displays the two-line warning, then asks for
  confirmation if and only if the force flag is not set. Nothing is staged before that,
  no further prompt follows, and a binary is staged (once, by the call that fits the
  source) exactly when the force flag is set or the user answered yes.
\<close>

theorem warning_and_confirmation_before_staging:
  assumes exp: "Experimental (Config cmd)"
    and p: "p = PathURLOrPluginName (OptionalArgs cmd)" and ne: "p \<noteq> []"
    and t: "t = DeterminePathType pk p (env s)"
    and src: "t = PluginHTTPPath \<or> (t = PluginFilePath \<and> FileExists (Actor cmd) p (env s))"
  shows "\<exists>rest.
           new_events s (snd (Execute pk cmd s)) =
             resolving t p @ confirmation cmd (prompt_text t) p @ rest
         \<and> filter staging (resolving t p @ confirmation cmd (prompt_text t) p) = []
         \<and> filter is_prompt rest = []
         \<and> filter staging rest =
             (if Force cmd
                 \<or> DisplayBoolPrompt (UI cmd) False (prompt_text t) [(''Path'', TString p)] (env s)
                     = (True, None)
              then [if t = PluginFilePath then E_CreateExecutableCopy p else E_FetchPluginFromURL p]
              else [])"
proof -
  let ?pre = "resolving t p @ confirmation cmd (prompt_text t) p"
  let ?ok = "Force cmd
     \<or> DisplayBoolPrompt (UI cmd) False (prompt_text t) [(''Path'', TString p)] (env s) = (True, None)"
  obtain r s1 where prep: "preparePluginForInstallation pk cmd p s = (r, s1)"
    by (metis surj_pair)
  have "\<exists>mid. trace s1 = trace s @ ?pre @ mid \<and> filter is_prompt mid = []
          \<and> filter staging mid =
              (if ?ok
               then [if t = PluginFilePath then E_CreateExecutableCopy p else E_FetchPluginFromURL p]
               else [])"
    using src
  proof
    assume http: "t = PluginHTTPPath"
    then have d: "DeterminePathType pk p (env s) = PluginHTTPPath"
      using t by simp
    show ?thesis
    proof (cases "fst (promptForInstallPlugin cmd prompt_url p s)")
      case (Some e)
      then have "\<not> ?ok"
        using prompt_None_iff [of cmd prompt_url p s] http by (simp add: prompt_text_def)
      with prepare_http_refused [OF d Some] prep http show ?thesis
        by (simp add: resolving_def prompt_text_def)
    next
      case None
      then have ok: "?ok"
        using prompt_None_iff [of cmd prompt_url p s] http by (simp add: prompt_text_def)
      obtain dp ferr w where f: "FetchPluginFromURL (Actor cmd) p (env s) = ((dp, ferr), w)"
        by (metis surj_pair)
      from prepare_http_confirmed [OF d None f refl] prep http ok show ?thesis
        by (auto simp: resolving_def prompt_text_def split: option.splits)
    qed
  next
    assume "t = PluginFilePath \<and> FileExists (Actor cmd) p (env s)"
    then have isfile: "t = PluginFilePath" and ex: "FileExists (Actor cmd) p (env s)"
      by simp_all
    from isfile have d: "DeterminePathType pk p (env s) = PluginFilePath"
      using t by simp
    show ?thesis
    proof (cases "fst (promptForInstallPlugin cmd prompt_file p s)")
      case (Some e)
      then have "\<not> ?ok"
        using prompt_None_iff [of cmd prompt_file p s] isfile by (simp add: prompt_text_def)
      with prepare_file_refused [OF d ex Some] prep isfile show ?thesis
        by (simp add: resolving_def prompt_text_def)
    next
      case None
      then have ok: "?ok"
        using prompt_None_iff [of cmd prompt_file p s] isfile by (simp add: prompt_text_def)
      from prepare_file_confirmed [OF d ex None] prep isfile ok show ?thesis
        by (auto simp: resolving_def prompt_text_def)
    qed
  qed
  then obtain mid where mid: "trace s1 = trace s @ ?pre @ mid" "filter is_prompt mid = []"
    "filter staging mid =
       (if ?ok
        then [if t = PluginFilePath then E_CreateExecutableCopy p else E_FetchPluginFromURL p]
        else [])"
    by blast
  obtain rest where rest: "trace (snd (Execute pk cmd s)) = trace s1 @ rest"
    "filter staging rest = []" "filter is_prompt rest = []"
    using Execute_after_prepare_events [OF exp p ne prep] by blast
  have "trace (snd (Execute pk cmd s)) = trace s @ (?pre @ mid @ rest)"
    using mid(1) rest(1) by simp
  then have "new_events s (snd (Execute pk cmd s)) = ?pre @ (mid @ rest)"
    by (simp only: new_events_append append_assoc)
  moreover have "filter staging ?pre = []"
    by (simp add: resolving_def)
  moreover have "filter is_prompt (mid @ rest) = []"
    using mid(2) rest(3) by simp
  moreover have "filter staging (mid @ rest) =
       (if ?ok
        then [if t = PluginFilePath then E_CreateExecutableCopy p else E_FetchPluginFromURL p]
        else [])"
    using mid(3) rest(2) by simp
  ultimately show ?thesis
    by (simp only: append_assoc) blast
qed

subsection \<open>Neither a file nor a URL\<close>

text \<open>
  With the experimental flag on, a non-empty argument whose path type is neither a local
  file nor an HTTP(S) URL makes \<open>Execute\<close> return \<^verbatim>\<open>UnsupportedURLSchemeError\<close> for that
  argument: the path type is determined, the (empty) staged path is removed, and nothing
  else is called.
\<close>

lemma unsupported_source:
  assumes exp: "Experimental (Config cmd)"
    and p: "p = PathURLOrPluginName (OptionalArgs cmd)" and ne: "p \<noteq> []"
    and nofile: "DeterminePathType pk p (env s) \<noteq> PluginFilePath"
    and nourl: "DeterminePathType pk p (env s) \<noteq> PluginHTTPPath"
  shows "Execute pk (cmd\<lparr>RegisteredRepository := repo\<rparr>) s =
           (Returned (Some (UnsupportedURLSchemeError p)),
            s\<lparr>trace := trace s @ [E_DeterminePathType p, E_Remove []]\<rparr>)"
proof -
  let ?cmd = "cmd\<lparr>RegisteredRepository := repo\<rparr>"
  have "Execute pk ?cmd s =
          (Returned (Some (UnsupportedURLSchemeError p)),
           os_Remove [] (s\<lparr>trace := trace s @ [E_DeterminePathType p]\<rparr>))"
    by (rule Execute_prepare_failed [OF _ _ ne prepare_unsupported [OF nofile nourl]])
       (simp_all add: exp p)
  then show ?thesis
    by (simp add: os_Remove_run os_Remove_world_def)
qed

text \<open>
  The registered-repository option is never read: no function of the command depends on
  it.
\<close>

lemma promptForInstallPlugin_repo [simp]:
  "promptForInstallPlugin (cmd\<lparr>RegisteredRepository := repo\<rparr>) prompt path s =
   promptForInstallPlugin cmd prompt path s"
  by (simp add: promptForInstallPlugin_def Let_def split_beta cong: option.case_cong)

lemma preparePluginForInstallation_repo [simp]:
  "preparePluginForInstallation pk (cmd\<lparr>RegisteredRepository := repo\<rparr>) p s =
   preparePluginForInstallation pk cmd p s"
  by (simp add: preparePluginForInstallation_def Let_def split_beta cong: option.case_cong)

lemma installPlugin_repo [simp]:
  "installPlugin pk (cmd\<lparr>RegisteredRepository := repo\<rparr>) plugin path s =
   installPlugin pk cmd plugin path s"
  by (simp add: installPlugin_def Let_def split_beta cong: option.case_cong)

lemma uninstallPlugin_repo [simp]:
  "uninstallPlugin pk (cmd\<lparr>RegisteredRepository := repo\<rparr>) plugin rpc s =
   uninstallPlugin pk cmd plugin rpc s"
  by (simp add: uninstallPlugin_def Let_def split_beta cong: option.case_cong)

lemma Execute_deferred_body_repo [simp]:
  "Execute_deferred_body pk (cmd\<lparr>RegisteredRepository := repo\<rparr>) p tmp s =
   Execute_deferred_body pk cmd p tmp s"
  by (simp add: Execute_deferred_body_def Let_def split_beta cong: option.case_cong)

lemma RegisteredRepository_ignored:
  "Execute pk (cmd\<lparr>RegisteredRepository := repo\<rparr>) s = Execute pk cmd s"
  by (simp add: Execute_def Let_def split: outcome.splits prod.splits)

subsection \<open>The required argument\<close>

text \<open>
  C9 (as amended). With the experimental flag on and an empty positional argument,
  \<open>Execute\<close> returns \<^verbatim>\<open>RequiredArgumentError\<close> for \<^verbatim>\<open>PATH_URL_PLUGIN_NAME\<close> and the
  run, world and record of calls alike, is untouched: nothing was resolved, displayed,
  staged, started or looked up.
\<close>

theorem Execute_required_argument:
  assumes "Experimental (Config cmd)" and "PathURLOrPluginName (OptionalArgs cmd) = []"
  shows "Execute pk cmd s = (Returned (Some (RequiredArgumentError ''PATH_URL_PLUGIN_NAME'')), s)"
  using assms by (simp add: Execute_def)

subsection \<open>Declining the prompt\<close>

text \<open>
  C5. For a local file that exists, without the force flag, a user who answers no makes
  \<open>Execute\<close> return \<^verbatim>\<open>PluginInstallationCancelled\<close>. The world is unchanged (registry
  and files), and the calls made are the classification of the argument, the warning,
  the prompt and the removal of the empty staged path: no binary was staged.
\<close>

theorem decline_local_path:
  assumes "Experimental (Config cmd)"
    and "p = PathURLOrPluginName (OptionalArgs cmd)" and "p \<noteq> []"
    and "DeterminePathType pk p (env s) = PluginFilePath"
    and "FileExists (Actor cmd) p (env s)"
    and "\<not> Force cmd"
    and "DisplayBoolPrompt (UI cmd) False prompt_file [(''Path'', TString p)] (env s) = (False, None)"
  shows "Execute pk cmd s =
           (Returned (Some PluginInstallationCancelled),
            s\<lparr>trace := trace s @ [E_DeterminePathType p, E_FileExists p] @ warning @
                 [E_DisplayBoolPrompt prompt_file [(''Path'', TString p)], E_Remove []]\<rparr>)"
proof -
  have "fst (promptForInstallPlugin cmd prompt_file p s) = Some PluginInstallationCancelled"
    using assms(6,7) by (simp add: promptForInstallPlugin_result)
  from Execute_prepare_failed [OF assms(1,2,3) prepare_file_refused [OF assms(4,5) this]]
  show ?thesis
    using assms(6) by (simp add: os_Remove_run os_Remove_world_def confirmation_def)
qed

subsection \<open>The legacy gate\<close>

text \<open>
  C10. With the experimental flag of the configuration off, \<open>Execute\<close> calls the legacy
  command's \<^verbatim>\<open>Main\<close> and returns \<^verbatim>\<open>nil\<close>: that call is the only entry it adds to the
  record of calls, and the world it leaves is the one the legacy command produced.
\<close>

theorem Execute_legacy_when_not_experimental:
  assumes "\<not> Experimental (Config cmd)"
  shows "Execute pk cmd s =
           (Returned None, \<lparr>env = oldCmd_Main pk (env s), trace = trace s @ [E_oldCmd_Main]\<rparr>)"
  using assms by (simp add: Execute_def emit_def)

section \<open>The command on a concrete machine\<close>

text \<open>
  The theorems above, instantiated with the collaborators of the concrete machine: version
  1.0.0 of \<open>echo\<close> is installed, and the binary of version 2.0.0 lies at
  \<^verbatim>\<open>/home/u/echo\<close>.
\<close>

lemmas fx_defs =
  fx_cmd_def fx_Actor_def fx_packages_def fx_run_def fx_world_def fx_remote_def fx_meta_def
  fx_CreateExecutableCopy_def fx_FetchPluginFromURL_def fx_GetAndValidatePlugin_def
  fx_InstallPluginFromPath_def fx_UninstallPlugin_def fx_DeterminePathType_def
  fx_Version_String_def echo1_def echo2_def fx_cmd_partial_def fx_cmd_stuck_def
  fx_partial_fetch_def

lemma fx_prepare_file:
  assumes "CreateExecutableCopy (Actor cmd) = fx_CreateExecutableCopy"
    and "FileExists (Actor cmd) = (\<lambda>path w. files w path \<noteq> None)"
    and "fst (promptForInstallPlugin cmd prompt_file ''/home/u/echo'' fx_run) = None"
  shows "preparePluginForInstallation fx_packages cmd ''/home/u/echo'' fx_run =
     (Returned (''/home/u/echo.tmp'', None),
      \<lparr>env = fx_world\<lparr>files := (files fx_world)(''/home/u/echo.tmp'' \<mapsto> 2048)\<rparr>,
       trace = [E_DeterminePathType ''/home/u/echo'', E_FileExists ''/home/u/echo'']
               @ confirmation cmd prompt_file ''/home/u/echo''
               @ [E_CreateExecutableCopy ''/home/u/echo'']\<rparr>)"
proof -
  have d: "DeterminePathType fx_packages ''/home/u/echo'' (env fx_run) = PluginFilePath"
    by (simp add: fx_packages_def fx_DeterminePathType_def fx_run_def fx_world_def)
  have e: "FileExists (Actor cmd) ''/home/u/echo'' (env fx_run)"
    by (simp add: assms(2) fx_run_def fx_world_def)
  from prepare_file_confirmed [OF d e assms(3)] show ?thesis
    by (simp add: assms(1) fx_CreateExecutableCopy_def fx_run_def fx_world_def)
qed

subsection \<open>Installing over an installed plugin\<close>

text \<open>Without the force flag the installed version 1.0.0 stays, binary and registry entry.\<close>

theorem already_installed_witness:
  "fst (Execute fx_packages (fx_cmd ''/home/u/echo'' False True True) fx_run) =
     Returned (Some (PluginAlreadyInstalledError ''echo'' ''2.0.0'' ''/home/u/echo''))
   \<and> filter registry_call
         (new_events fx_run (snd (Execute fx_packages (fx_cmd ''/home/u/echo'' False True True) fx_run)))
       = []
   \<and> plugins (env (snd (Execute fx_packages (fx_cmd ''/home/u/echo'' False True True) fx_run)))
       ''echo'' = Some echo1
   \<and> files (env (snd (Execute fx_packages (fx_cmd ''/home/u/echo'' False True True) fx_run)))
       ''/plugins/echo'' = Some 1024
   \<and> files (env (snd (Execute fx_packages (fx_cmd ''/home/u/echo'' False True True) fx_run)))
       ''/home/u/echo.tmp'' = None"
proof -
  let ?cmd = "fx_cmd ''/home/u/echo'' False True True"
  let ?w = "fx_world\<lparr>files := (files fx_world)(''/home/u/echo.tmp'' \<mapsto> 2048)\<rparr>"
  define s1 where "s1 =
     \<lparr>env = ?w,
      trace = [E_DeterminePathType ''/home/u/echo'', E_FileExists ''/home/u/echo'']
              @ confirmation ?cmd prompt_file ''/home/u/echo''
              @ [E_CreateExecutableCopy ''/home/u/echo'']\<rparr>"
  have exp: "Experimental (Config ?cmd)"
    and p: "''/home/u/echo'' = PathURLOrPluginName (OptionalArgs ?cmd)"
    and ne: "''/home/u/echo'' \<noteq> []"
    and nf: "\<not> Force ?cmd"
    by (simp_all add: fx_cmd_def)
  have prep: "preparePluginForInstallation fx_packages ?cmd ''/home/u/echo'' fx_run =
                (Returned (''/home/u/echo.tmp'', None), s1)"
    unfolding s1_def
    by (rule fx_prepare_file) (simp_all add: fx_cmd_def fx_Actor_def promptForInstallPlugin_result)
  have rpc: "NewRPCService fx_packages (env s1) = ((RPCService 0, None), ?w)"
    by (simp add: s1_def fx_packages_def)
  have val: "GetAndValidatePlugin (Actor ?cmd) (RPCService 0) (Commands fx_packages)
               ''/home/u/echo.tmp'' ?w = ((echo2, None), ?w)"
    by (simp add: fx_defs)
  have inst: "IsPluginInstalled (Actor ?cmd) (Name echo2) ?w"
    by (simp add: fx_defs)
  note w = already_installed_without_force [OF exp p ne prep rpc val inst nf]
  have "fst (Execute fx_packages ?cmd fx_run) =
          Returned (Some (PluginAlreadyInstalledError ''echo'' ''2.0.0'' ''/home/u/echo''))"
    using w [THEN conjunct1] by (simp add: echo2_def fx_packages_def fx_Version_String_def)
  moreover have "filter registry_call (new_events fx_run (snd (Execute fx_packages ?cmd fx_run))) = []"
    by (rule w [THEN conjunct2, THEN conjunct1])
  moreover have "plugins (env (snd (Execute fx_packages ?cmd fx_run))) ''echo'' = Some echo1"
    using w [THEN conjunct2, THEN conjunct2, THEN conjunct1] by (simp add: fx_world_def)
  moreover have "files (env (snd (Execute fx_packages ?cmd fx_run))) ''/plugins/echo'' = Some 1024"
    using w [THEN conjunct2, THEN conjunct2, THEN conjunct2] by (simp add: fx_world_def)
  moreover have "files (env (snd (Execute fx_packages ?cmd fx_run))) ''/home/u/echo.tmp'' = None"
    using w [THEN conjunct2, THEN conjunct2, THEN conjunct2] by (simp add: fx_world_def)
  ultimately show ?thesis
    by simp
qed

text \<open>
  The installed entry is version 1.0.0; the error carries 2.0.0, the version of the binary
  being installed.
\<close>

lemma fx_already_installed_run:
  "Execute fx_packages (fx_cmd ''/home/u/echo'' False True True) fx_run =
     (Returned (Some (PluginAlreadyInstalledError ''echo'' ''2.0.0'' ''/home/u/echo'')),
      \<lparr>env = fx_world,
       trace = [E_DeterminePathType ''/home/u/echo'', E_FileExists ''/home/u/echo''] @ warning @
               [E_DisplayBoolPrompt prompt_file [(''Path'', TString ''/home/u/echo'')],
                E_CreateExecutableCopy ''/home/u/echo'',
                E_NewRPCService, E_GetAndValidatePlugin ''/home/u/echo.tmp'',
                E_IsPluginInstalled ''echo'', E_Remove ''/home/u/echo.tmp'']\<rparr>)"
proof -
  let ?cmd = "fx_cmd ''/home/u/echo'' False True True"
  let ?w = "fx_world\<lparr>files := (files fx_world)(''/home/u/echo.tmp'' \<mapsto> 2048)\<rparr>"
  define s1 where "s1 =
     \<lparr>env = ?w,
      trace = [E_DeterminePathType ''/home/u/echo'', E_FileExists ''/home/u/echo'']
              @ confirmation ?cmd prompt_file ''/home/u/echo''
              @ [E_CreateExecutableCopy ''/home/u/echo'']\<rparr>"
  have exp: "Experimental (Config ?cmd)"
    and p: "''/home/u/echo'' = PathURLOrPluginName (OptionalArgs ?cmd)"
    and ne: "''/home/u/echo'' \<noteq> []"
    and nf: "\<not> Force ?cmd"
    by (simp_all add: fx_cmd_def)
  have prep: "preparePluginForInstallation fx_packages ?cmd ''/home/u/echo'' fx_run =
                (Returned (''/home/u/echo.tmp'', None), s1)"
    unfolding s1_def
    by (rule fx_prepare_file) (simp_all add: fx_cmd_def fx_Actor_def promptForInstallPlugin_result)
  have rpc: "NewRPCService fx_packages (env s1) = ((RPCService 0, None), ?w)"
    by (simp add: s1_def fx_packages_def)
  have val: "GetAndValidatePlugin (Actor ?cmd) (RPCService 0) (Commands fx_packages)
               ''/home/u/echo.tmp'' ?w = ((echo2, None), ?w)"
    by (simp add: fx_defs)
  have inst: "IsPluginInstalled (Actor ?cmd) (Name echo2) ?w"
    by (simp add: fx_defs)
  have w: "os_Remove_world ''/home/u/echo.tmp'' ?w = fx_world"
    by (simp add: os_Remove_world_def fx_world_def)
  show ?thesis
    unfolding Execute_already_installed [OF exp p ne prep rpc val inst nf] w
    by (simp add: s1_def confirmation_def nf echo2_def fx_packages_def fx_Version_String_def)
qed

theorem installed_version_counterexample:
  "plugins fx_world ''echo'' = Some echo1
   \<and> Version_String fx_packages (Version echo1) = ''1.0.0''
   \<and> fst (Execute fx_packages (fx_cmd ''/home/u/echo'' False True True) fx_run) =
       Returned (Some (PluginAlreadyInstalledError ''echo'' ''2.0.0'' ''/home/u/echo''))"
  unfolding fx_already_installed_run
  by (simp add: fx_world_def fx_packages_def fx_Version_String_def echo1_def)

text \<open>
  With the force flag version 2.0.0 replaces it; with an actor whose uninstall fails,
  the error comes back and version 1.0.0 stays.
\<close>

theorem force_reinstall_witness:
  "fst (Execute fx_packages (fx_cmd ''/home/u/echo'' True True True) fx_run) = Returned None
   \<and> filter registry_call
         (new_events fx_run (snd (Execute fx_packages (fx_cmd ''/home/u/echo'' True True True) fx_run)))
       = [E_UninstallPlugin ''echo'', E_InstallPluginFromPath ''/home/u/echo.tmp'' ''echo'']
   \<and> plugins (env (snd (Execute fx_packages (fx_cmd ''/home/u/echo'' True True True) fx_run)))
       ''echo'' = Some echo2
   \<and> fst (Execute fx_packages (fx_cmd_stuck ''/home/u/echo'') fx_run) =
       Returned (Some (OtherError ''busy''))
   \<and> filter registry_call
         (new_events fx_run (snd (Execute fx_packages (fx_cmd_stuck ''/home/u/echo'') fx_run)))
       = [E_UninstallPlugin ''echo'']
   \<and> plugins (env (snd (Execute fx_packages (fx_cmd_stuck ''/home/u/echo'') fx_run)))
       ''echo'' = Some echo1"
proof -
  let ?p = "''/home/u/echo''" and ?tmp = "''/home/u/echo.tmp''"
  let ?w = "fx_world\<lparr>files := (files fx_world)(?tmp \<mapsto> 2048)\<rparr>"
  let ?w4 = "?w\<lparr>files := (files ?w)(''/plugins/echo'' := None),
                 plugins := (plugins ?w)(''echo'' := None)\<rparr>"
  let ?w5 = "?w4\<lparr>files := (files ?w4)(''/plugins/echo'' \<mapsto> 2048),
                  plugins := (plugins ?w4)(''echo'' \<mapsto> echo2)\<rparr>"
  let ?w5' = "?w\<lparr>files := (files ?w)(''/plugins/echo'' \<mapsto> 2048),
                  plugins := (plugins ?w)(''echo'' \<mapsto> echo2)\<rparr>"
  have good: "fst (Execute fx_packages (fx_cmd ?p True True True) fx_run) = Returned None
       \<and> filter registry_call
             (new_events fx_run (snd (Execute fx_packages (fx_cmd ?p True True True) fx_run)))
           = [E_UninstallPlugin ''echo'', E_InstallPluginFromPath ?tmp ''echo'']
       \<and> plugins (env (snd (Execute fx_packages (fx_cmd ?p True True True) fx_run))) ''echo''
           = Some echo2"
  proof -
    let ?cmd = "fx_cmd ?p True True True"
    have exp: "Experimental (Config ?cmd)" and p: "?p = PathURLOrPluginName (OptionalArgs ?cmd)"
      and ne: "?p \<noteq> []" and force: "Force ?cmd"
      by (simp_all add: fx_cmd_def)
    have prep: "preparePluginForInstallation fx_packages ?cmd ?p fx_run =
                  (Returned (?tmp, None),
                   \<lparr>env = ?w,
                    trace = [E_DeterminePathType ?p, E_FileExists ?p]
                            @ confirmation ?cmd prompt_file ?p @ [E_CreateExecutableCopy ?p]\<rparr>)"
      by (rule fx_prepare_file)
         (simp_all add: fx_cmd_def fx_Actor_def promptForInstallPlugin_result)
    have rpc: "NewRPCService fx_packages
                 (env \<lparr>env = ?w,
                       trace = [E_DeterminePathType ?p, E_FileExists ?p]
                               @ confirmation ?cmd prompt_file ?p @ [E_CreateExecutableCopy ?p]\<rparr>)
               = ((RPCService 0, None), ?w)"
      by (simp add: fx_packages_def)
    have val: "GetAndValidatePlugin (Actor ?cmd) (RPCService 0) (Commands fx_packages) ?tmp ?w
               = ((echo2, None), ?w)"
      by (simp add: fx_defs)
    have inst: "IsPluginInstalled (Actor ?cmd) (Name echo2) ?w"
      by (simp add: fx_defs)
    have un: "UninstallPlugin (Actor ?cmd) (RPCService 0) (Name echo2) ?w = (None, ?w4)"
      by (simp add: fx_defs)
    have ins: "InstallPluginFromPath (Actor ?cmd) ?tmp echo2 ?w4 = (None, ?w5)"
      by (simp add: fx_defs)
    note w = force_reinstall_uninstalls_first [OF exp p ne prep rpc val inst force un ins]
    have "fst (Execute fx_packages ?cmd fx_run) = Returned None"
      using w [THEN conjunct1] by simp
    moreover have "filter registry_call (new_events fx_run (snd (Execute fx_packages ?cmd fx_run)))
                   = [E_UninstallPlugin ''echo'', E_InstallPluginFromPath ?tmp ''echo'']"
      using w [THEN conjunct2, THEN conjunct2] by (simp add: echo2_def)
    moreover have "plugins (env (snd (Execute fx_packages ?cmd fx_run))) ''echo'' = Some echo2"
      using w [THEN conjunct2, THEN conjunct1] by (simp add: os_Remove_world_def)
    ultimately show ?thesis
      by simp
  qed
  have bad: "fst (Execute fx_packages (fx_cmd_stuck ?p) fx_run) = Returned (Some (OtherError ''busy''))
       \<and> filter registry_call
             (new_events fx_run (snd (Execute fx_packages (fx_cmd_stuck ?p) fx_run)))
           = [E_UninstallPlugin ''echo'']
       \<and> plugins (env (snd (Execute fx_packages (fx_cmd_stuck ?p) fx_run))) ''echo'' = Some echo1"
  proof -
    let ?cmd = "fx_cmd_stuck ?p"
    have exp: "Experimental (Config ?cmd)" and p: "?p = PathURLOrPluginName (OptionalArgs ?cmd)"
      and ne: "?p \<noteq> []" and force: "Force ?cmd"
      by (simp_all add: fx_cmd_stuck_def fx_cmd_def)
    have prep: "preparePluginForInstallation fx_packages ?cmd ?p fx_run =
                  (Returned (?tmp, None),
                   \<lparr>env = ?w,
                    trace = [E_DeterminePathType ?p, E_FileExists ?p]
                            @ confirmation ?cmd prompt_file ?p @ [E_CreateExecutableCopy ?p]\<rparr>)"
      by (rule fx_prepare_file)
         (simp_all add: fx_cmd_stuck_def fx_cmd_def fx_Actor_def promptForInstallPlugin_result)
    have rpc: "NewRPCService fx_packages
                 (env \<lparr>env = ?w,
                       trace = [E_DeterminePathType ?p, E_FileExists ?p]
                               @ confirmation ?cmd prompt_file ?p @ [E_CreateExecutableCopy ?p]\<rparr>)
               = ((RPCService 0, None), ?w)"
      by (simp add: fx_packages_def)
    have val: "GetAndValidatePlugin (Actor ?cmd) (RPCService 0) (Commands fx_packages) ?tmp ?w
               = ((echo2, None), ?w)"
      by (simp add: fx_defs)
    have inst: "IsPluginInstalled (Actor ?cmd) (Name echo2) ?w"
      by (simp add: fx_defs)
    have un: "UninstallPlugin (Actor ?cmd) (RPCService 0) (Name echo2) ?w
              = (Some (OtherError ''busy''), ?w)"
      by (simp add: fx_defs)
    have ins: "InstallPluginFromPath (Actor ?cmd) ?tmp echo2 ?w = (None, ?w5')"
      by (simp add: fx_defs)
    note w = force_reinstall_uninstalls_first [OF exp p ne prep rpc val inst force un ins]
    have "fst (Execute fx_packages ?cmd fx_run) = Returned (Some (OtherError ''busy''))"
      using w [THEN conjunct1] by simp
    moreover have "filter registry_call (new_events fx_run (snd (Execute fx_packages ?cmd fx_run)))
                   = [E_UninstallPlugin ''echo'']"
      using w [THEN conjunct2, THEN conjunct2] by (simp add: echo2_def)
    moreover have "plugins (env (snd (Execute fx_packages ?cmd fx_run))) ''echo'' = Some echo1"
      using w [THEN conjunct2, THEN conjunct1] by (simp add: os_Remove_world_def fx_world_def)
    ultimately show ?thesis
      by simp
  qed
  from good bad show ?thesis
    by simp
qed

subsection \<open>The staged path\<close>

theorem staged_path_removed_witness:
  "(\<exists>r. fst (Execute fx_packages (fx_cmd ''/home/u/echo'' False True True) fx_run) = Returned r)
   \<and> filter is_remove
         (new_events fx_run (snd (Execute fx_packages (fx_cmd ''/home/u/echo'' False True True) fx_run)))
       = [E_Remove ''/home/u/echo.tmp'']
   \<and> last (trace (snd (Execute fx_packages (fx_cmd ''/home/u/echo'' False True True) fx_run)))
       = E_Remove ''/home/u/echo.tmp''
   \<and> files (env (snd (Execute fx_packages (fx_cmd ''/home/u/echo'' False True True) fx_run)))
       ''/home/u/echo.tmp'' = None"
proof -
  let ?cmd = "fx_cmd ''/home/u/echo'' False True True"
  have exp: "Experimental (Config ?cmd)"
    and p: "''/home/u/echo'' = PathURLOrPluginName (OptionalArgs ?cmd)"
    and ne: "''/home/u/echo'' \<noteq> []"
    by (simp_all add: fx_cmd_def)
  have "preparePluginForInstallation fx_packages ?cmd ''/home/u/echo'' fx_run =
     (Returned (''/home/u/echo.tmp'', None),
      \<lparr>env = fx_world\<lparr>files := (files fx_world)(''/home/u/echo.tmp'' \<mapsto> 2048)\<rparr>,
       trace = [E_DeterminePathType ''/home/u/echo'', E_FileExists ''/home/u/echo'']
               @ confirmation ?cmd prompt_file ''/home/u/echo''
               @ [E_CreateExecutableCopy ''/home/u/echo'']\<rparr>)"
    by (rule fx_prepare_file) (simp_all add: fx_cmd_def fx_Actor_def promptForInstallPlugin_result)
  then have prep: "fst (preparePluginForInstallation fx_packages ?cmd ''/home/u/echo'' fx_run) =
                     Returned (''/home/u/echo.tmp'', None)"
    by simp
  note w = staged_path_removed_last [OF exp p ne prep]
  have "''/home/u/echo.tmp'' \<notin> protected (env (snd (Execute fx_packages ?cmd fx_run)))"
    by (simp add: fx_already_installed_run fx_world_def)
  with w show ?thesis
    by simp
qed

text \<open>
  Where the operating system refuses the removal, \<open>Execute\<close> returns and the staged copy
  is still on disk; and a file the actor created before its copy failed is not removed,
  since the actor handed back the empty path.
\<close>

lemma fx_prepare_file_locked:
  "preparePluginForInstallation fx_packages (fx_cmd ''/home/u/echo'' False True True)
     ''/home/u/echo'' fx_run_locked =
     (Returned (''/home/u/echo.tmp'', None),
      \<lparr>env = fx_world\<lparr>files := (files fx_world)(''/home/u/echo.tmp'' \<mapsto> 2048),
                        protected := {''/home/u/echo.tmp''}\<rparr>,
       trace = [E_DeterminePathType ''/home/u/echo'', E_FileExists ''/home/u/echo'']
               @ confirmation (fx_cmd ''/home/u/echo'' False True True) prompt_file ''/home/u/echo''
               @ [E_CreateExecutableCopy ''/home/u/echo'']\<rparr>)"
proof -
  let ?cmd = "fx_cmd ''/home/u/echo'' False True True"
  have d: "DeterminePathType fx_packages ''/home/u/echo'' (env fx_run_locked) = PluginFilePath"
    by (simp add: fx_packages_def fx_DeterminePathType_def fx_run_locked_def fx_world_def)
  have e: "FileExists (Actor ?cmd) ''/home/u/echo'' (env fx_run_locked)"
    by (simp add: fx_cmd_def fx_Actor_def fx_run_locked_def fx_world_def)
  have c: "fst (promptForInstallPlugin ?cmd prompt_file ''/home/u/echo'' fx_run_locked) = None"
    by (simp add: promptForInstallPlugin_result fx_cmd_def)
  from prepare_file_confirmed [OF d e c] show ?thesis
    by (simp add: fx_cmd_def fx_Actor_def fx_CreateExecutableCopy_def fx_run_locked_def
          fx_world_def confirmation_def)
qed

theorem staged_file_remains_counterexample:
  "fst (preparePluginForInstallation fx_packages (fx_cmd ''/home/u/echo'' False True True)
          ''/home/u/echo'' fx_run_locked) = Returned (''/home/u/echo.tmp'', None)
   \<and> fst (Execute fx_packages (fx_cmd ''/home/u/echo'' False True True) fx_run_locked) =
       Returned (Some (PluginAlreadyInstalledError ''echo'' ''2.0.0'' ''/home/u/echo''))
   \<and> files (env (snd (Execute fx_packages (fx_cmd ''/home/u/echo'' False True True) fx_run_locked)))
       ''/home/u/echo.tmp'' = Some 2048
   \<and> fst (Execute fx_packages (fx_cmd_leaky ''/home/u/echo'') fx_run) =
       Returned (Some (OtherError ''CopyError''))
   \<and> files (env (snd (Execute fx_packages (fx_cmd_leaky ''/home/u/echo'') fx_run)))
       ''/tmp/staged'' = Some 0"
proof -
  have locked: "fst (preparePluginForInstallation fx_packages (fx_cmd ''/home/u/echo'' False True True)
          ''/home/u/echo'' fx_run_locked) = Returned (''/home/u/echo.tmp'', None)
   \<and> fst (Execute fx_packages (fx_cmd ''/home/u/echo'' False True True) fx_run_locked) =
       Returned (Some (PluginAlreadyInstalledError ''echo'' ''2.0.0'' ''/home/u/echo''))
   \<and> files (env (snd (Execute fx_packages (fx_cmd ''/home/u/echo'' False True True) fx_run_locked)))
       ''/home/u/echo.tmp'' = Some 2048"
  proof -
    let ?cmd = "fx_cmd ''/home/u/echo'' False True True"
    let ?w = "fx_world\<lparr>files := (files fx_world)(''/home/u/echo.tmp'' \<mapsto> 2048),
                        protected := {''/home/u/echo.tmp''}\<rparr>"
    define s1 where "s1 =
       \<lparr>env = ?w,
        trace = [E_DeterminePathType ''/home/u/echo'', E_FileExists ''/home/u/echo'']
                @ confirmation ?cmd prompt_file ''/home/u/echo''
                @ [E_CreateExecutableCopy ''/home/u/echo'']\<rparr>"
    have exp: "Experimental (Config ?cmd)"
      and p: "''/home/u/echo'' = PathURLOrPluginName (OptionalArgs ?cmd)"
      and ne: "''/home/u/echo'' \<noteq> []"
      and nf: "\<not> Force ?cmd"
      by (simp_all add: fx_cmd_def)
    have prep: "preparePluginForInstallation fx_packages ?cmd ''/home/u/echo'' fx_run_locked =
                  (Returned (''/home/u/echo.tmp'', None), s1)"
      unfolding s1_def by (rule fx_prepare_file_locked)
    have rpc: "NewRPCService fx_packages (env s1) = ((RPCService 0, None), ?w)"
      by (simp add: s1_def fx_packages_def)
    have val: "GetAndValidatePlugin (Actor ?cmd) (RPCService 0) (Commands fx_packages)
                 ''/home/u/echo.tmp'' ?w = ((echo2, None), ?w)"
      by (simp add: fx_defs)
    have inst: "IsPluginInstalled (Actor ?cmd) (Name echo2) ?w"
      by (simp add: fx_defs)
    note ex = Execute_already_installed [OF exp p ne prep rpc val inst nf]
    have "fst (Execute fx_packages ?cmd fx_run_locked) =
            Returned (Some (PluginAlreadyInstalledError ''echo'' ''2.0.0'' ''/home/u/echo''))"
      unfolding ex by (simp add: echo2_def fx_packages_def fx_Version_String_def)
    moreover have "files (env (snd (Execute fx_packages ?cmd fx_run_locked))) ''/home/u/echo.tmp''
                     = Some 2048"
      unfolding ex by (simp add: os_Remove_world_def)
    ultimately show ?thesis
      using prep by simp
  qed
  have leaky: "fst (Execute fx_packages (fx_cmd_leaky ''/home/u/echo'') fx_run) =
       Returned (Some (OtherError ''CopyError''))
   \<and> files (env (snd (Execute fx_packages (fx_cmd_leaky ''/home/u/echo'') fx_run)))
       ''/tmp/staged'' = Some 0"
  proof -
    let ?cmd = "fx_cmd_leaky ''/home/u/echo''"
    have exp: "Experimental (Config ?cmd)"
      and p: "''/home/u/echo'' = PathURLOrPluginName (OptionalArgs ?cmd)"
      and ne: "''/home/u/echo'' \<noteq> []"
      by (simp_all add: fx_cmd_leaky_def fx_cmd_def)
    have d: "DeterminePathType fx_packages ''/home/u/echo'' (env fx_run) = PluginFilePath"
      by (simp add: fx_packages_def fx_DeterminePathType_def fx_run_def fx_world_def)
    have e: "FileExists (Actor ?cmd) ''/home/u/echo'' (env fx_run)"
      by (simp add: fx_cmd_leaky_def fx_Actor_def fx_run_def fx_world_def)
    have c: "fst (promptForInstallPlugin ?cmd prompt_file ''/home/u/echo'' fx_run) = None"
      by (simp add: promptForInstallPlugin_result fx_cmd_leaky_def fx_cmd_def)
    have prep: "preparePluginForInstallation fx_packages ?cmd ''/home/u/echo'' fx_run =
        (Returned ([], Some (OtherError ''CopyError'')),
         \<lparr>env = fx_world\<lparr>files := (files fx_world)(''/tmp/staged'' \<mapsto> 0)\<rparr>,
          trace = trace fx_run @ [E_DeterminePathType ''/home/u/echo'', E_FileExists ''/home/u/echo'']
                  @ confirmation ?cmd prompt_file ''/home/u/echo''
                  @ [E_CreateExecutableCopy ''/home/u/echo'']\<rparr>)"
      unfolding prepare_file_confirmed [OF d e c]
      by (simp add: fx_cmd_leaky_def fx_run_def)
    note ex = Execute_prepare_failed [OF exp p ne prep]
    show ?thesis
      unfolding ex by (simp add: os_Remove_run os_Remove_world_def)
  qed
  from locked leaky show ?thesis
    by simp
qed

subsection \<open>The states of a successful run\<close>

lemma fx_forced_returns:
  "fst (Execute fx_packages (fx_cmd ''/home/u/echo'' True True True) fx_run) = Returned None"
proof -
  let ?p = "''/home/u/echo''" and ?tmp = "''/home/u/echo.tmp''"
  let ?cmd = "fx_cmd ?p True True True"
  let ?w = "fx_world\<lparr>files := (files fx_world)(?tmp \<mapsto> 2048)\<rparr>"
  let ?w4 = "?w\<lparr>files := (files ?w)(''/plugins/echo'' := None),
                 plugins := (plugins ?w)(''echo'' := None)\<rparr>"
  let ?w5 = "?w4\<lparr>files := (files ?w4)(''/plugins/echo'' \<mapsto> 2048),
                  plugins := (plugins ?w4)(''echo'' \<mapsto> echo2)\<rparr>"
  have exp: "Experimental (Config ?cmd)" and p: "?p = PathURLOrPluginName (OptionalArgs ?cmd)"
    and ne: "?p \<noteq> []" and force: "Force ?cmd"
    by (simp_all add: fx_cmd_def)
  have prep: "preparePluginForInstallation fx_packages ?cmd ?p fx_run =
                (Returned (?tmp, None),
                 \<lparr>env = ?w,
                  trace = [E_DeterminePathType ?p, E_FileExists ?p]
                          @ confirmation ?cmd prompt_file ?p @ [E_CreateExecutableCopy ?p]\<rparr>)"
    by (rule fx_prepare_file)
       (simp_all add: fx_cmd_def fx_Actor_def promptForInstallPlugin_result)
  have rpc: "NewRPCService fx_packages
               (env \<lparr>env = ?w,
                     trace = [E_DeterminePathType ?p, E_FileExists ?p]
                             @ confirmation ?cmd prompt_file ?p @ [E_CreateExecutableCopy ?p]\<rparr>)
             = ((RPCService 0, None), ?w)"
    by (simp add: fx_packages_def)
  have val: "GetAndValidatePlugin (Actor ?cmd) (RPCService 0) (Commands fx_packages) ?tmp ?w
             = ((echo2, None), ?w)"
    by (simp add: fx_defs)
  have inst: "IsPluginInstalled (Actor ?cmd) (Name echo2) ?w"
    by (simp add: fx_defs)
  have un: "UninstallPlugin (Actor ?cmd) (RPCService 0) (Name echo2) ?w = (None, ?w4)"
    by (simp add: fx_defs)
  have ins: "InstallPluginFromPath (Actor ?cmd) ?tmp echo2 ?w4 = (None, ?w5)"
    by (simp add: fx_defs)
  show ?thesis
    unfolding Execute_forced [OF exp p ne prep rpc val inst force un ins] by simp
qed

theorem Execute_walks_witness:
  "\<exists>sts.
     states_of (new_events fx_run
                  (snd (Execute fx_packages (fx_cmd ''/home/u/echo'' True True True) fx_run)))
       = Resolving # sts
     \<and> follows (Resolving # sts)
     \<and> last (Resolving # sts) = Cleanup
     \<and> set [AwaitingConfirmation, Staging, Validating, ConflictCheck, Committing] \<subseteq> set sts"
proof -
  let ?cmd = "fx_cmd ''/home/u/echo'' True True True"
  have exp: "Experimental (Config ?cmd)"
    and ne: "PathURLOrPluginName (OptionalArgs ?cmd) \<noteq> []"
    by (simp_all add: fx_cmd_def)
  from Execute_walks_the_states [OF exp ne, of fx_run fx_packages] show ?thesis
    unfolding fx_forced_returns by simp
qed

subsection \<open>The prompt\<close>

theorem decline_local_path_witness:
  "Execute fx_packages (fx_cmd ''/home/u/echo'' False True False) fx_run =
     (Returned (Some PluginInstallationCancelled),
      \<lparr>env = fx_world,
       trace = [E_DeterminePathType ''/home/u/echo'', E_FileExists ''/home/u/echo''] @ warning @
               [E_DisplayBoolPrompt prompt_file [(''Path'', TString ''/home/u/echo'')],
                E_Remove []]\<rparr>)"
proof -
  let ?cmd = "fx_cmd ''/home/u/echo'' False True False"
  have exp: "Experimental (Config ?cmd)"
    and p: "''/home/u/echo'' = PathURLOrPluginName (OptionalArgs ?cmd)"
    and ne: "''/home/u/echo'' \<noteq> []"
    and nf: "\<not> Force ?cmd"
    and no: "DisplayBoolPrompt (UI ?cmd) False prompt_file [(''Path'', TString ''/home/u/echo'')]
               (env fx_run) = (False, None)"
    by (simp_all add: fx_cmd_def)
  have d: "DeterminePathType fx_packages ''/home/u/echo'' (env fx_run) = PluginFilePath"
    by (simp add: fx_packages_def fx_DeterminePathType_def fx_run_def fx_world_def)
  have e: "FileExists (Actor ?cmd) ''/home/u/echo'' (env fx_run)"
    by (simp add: fx_cmd_def fx_Actor_def fx_run_def fx_world_def)
  from decline_local_path [OF exp p ne d e nf no] show ?thesis
    by (simp add: fx_run_def)
qed

theorem warning_and_confirmation_witness:
  "\<exists>rest.
     new_events fx_run (snd (Execute fx_packages (fx_cmd ''/home/u/echo'' False True True) fx_run)) =
       [E_DeterminePathType ''/home/u/echo'', E_FileExists ''/home/u/echo''] @ warning @
       [E_DisplayBoolPrompt prompt_file [(''Path'', TString ''/home/u/echo'')]] @ rest
     \<and> filter is_prompt rest = []
     \<and> filter staging rest = [E_CreateExecutableCopy ''/home/u/echo'']"
proof -
  let ?cmd = "fx_cmd ''/home/u/echo'' False True True"
  have exp: "Experimental (Config ?cmd)"
    and p: "''/home/u/echo'' = PathURLOrPluginName (OptionalArgs ?cmd)"
    and ne: "''/home/u/echo'' \<noteq> []"
    by (simp_all add: fx_cmd_def)
  have t: "PluginFilePath = DeterminePathType fx_packages ''/home/u/echo'' (env fx_run)"
    by (simp add: fx_packages_def fx_DeterminePathType_def fx_run_def fx_world_def)
  have src: "PluginFilePath = PluginHTTPPath
             \<or> (PluginFilePath = PluginFilePath
                 \<and> FileExists (Actor ?cmd) ''/home/u/echo'' (env fx_run))"
    by (simp add: fx_cmd_def fx_Actor_def fx_run_def fx_world_def)
  from warning_and_confirmation_before_staging [OF exp p ne t src]
  obtain rest where
    "new_events fx_run (snd (Execute fx_packages ?cmd fx_run)) =
       resolving PluginFilePath ''/home/u/echo''
         @ confirmation ?cmd (prompt_text PluginFilePath) ''/home/u/echo'' @ rest"
    "filter is_prompt rest = []"
    "filter staging rest =
       (if Force ?cmd
           \<or> DisplayBoolPrompt (UI ?cmd) False (prompt_text PluginFilePath)
                [(''Path'', TString ''/home/u/echo'')] (env fx_run) = (True, None)
        then [if PluginFilePath = PluginFilePath then E_CreateExecutableCopy ''/home/u/echo''
              else E_FetchPluginFromURL ''/home/u/echo'']
        else [])"
    by blast
  then have
    "new_events fx_run (snd (Execute fx_packages ?cmd fx_run)) =
       [E_DeterminePathType ''/home/u/echo'', E_FileExists ''/home/u/echo''] @ warning @
       [E_DisplayBoolPrompt prompt_file [(''Path'', TString ''/home/u/echo'')]] @ rest
     \<and> filter is_prompt rest = []
     \<and> filter staging rest = [E_CreateExecutableCopy ''/home/u/echo'']"
    by (simp add: resolving_def confirmation_def prompt_text_def fx_cmd_def)
  then show ?thesis
    by blast
qed

text \<open>
  The spec's state machine puts Staging before AwaitingConfirmation. On the concrete
  machine the prompt is recorded before the copy is made, so the states of the run are
  not in the spec's order.
\<close>

theorem spec_order_counterexample:
  "new_events fx_run (snd (Execute fx_packages (fx_cmd ''/home/u/echo'' False True True) fx_run)) =
     [E_DeterminePathType ''/home/u/echo'', E_FileExists ''/home/u/echo''] @ warning @
     [E_DisplayBoolPrompt prompt_file [(''Path'', TString ''/home/u/echo'')],
      E_CreateExecutableCopy ''/home/u/echo'',
      E_NewRPCService, E_GetAndValidatePlugin ''/home/u/echo.tmp'',
      E_IsPluginInstalled ''echo'', E_Remove ''/home/u/echo.tmp'']
   \<and> \<not> sorted (map spec_rank (states_of
         (new_events fx_run
            (snd (Execute fx_packages (fx_cmd ''/home/u/echo'' False True True) fx_run)))))"
proof -
  let ?cmd = "fx_cmd ''/home/u/echo'' False True True"
  let ?w = "fx_world\<lparr>files := (files fx_world)(''/home/u/echo.tmp'' \<mapsto> 2048)\<rparr>"
  define s1 where "s1 =
     \<lparr>env = ?w,
      trace = [E_DeterminePathType ''/home/u/echo'', E_FileExists ''/home/u/echo'']
              @ confirmation ?cmd prompt_file ''/home/u/echo''
              @ [E_CreateExecutableCopy ''/home/u/echo'']\<rparr>"
  have exp: "Experimental (Config ?cmd)"
    and p: "''/home/u/echo'' = PathURLOrPluginName (OptionalArgs ?cmd)"
    and ne: "''/home/u/echo'' \<noteq> []"
    and nf: "\<not> Force ?cmd"
    by (simp_all add: fx_cmd_def)
  have prep: "preparePluginForInstallation fx_packages ?cmd ''/home/u/echo'' fx_run =
                (Returned (''/home/u/echo.tmp'', None), s1)"
    unfolding s1_def
    by (rule fx_prepare_file) (simp_all add: fx_cmd_def fx_Actor_def promptForInstallPlugin_result)
  have rpc: "NewRPCService fx_packages (env s1) = ((RPCService 0, None), ?w)"
    by (simp add: s1_def fx_packages_def)
  have val: "GetAndValidatePlugin (Actor ?cmd) (RPCService 0) (Commands fx_packages)
               ''/home/u/echo.tmp'' ?w = ((echo2, None), ?w)"
    by (simp add: fx_defs)
  have inst: "IsPluginInstalled (Actor ?cmd) (Name echo2) ?w"
    by (simp add: fx_defs)
  have tr: "trace (snd (Execute fx_packages ?cmd fx_run)) =
     trace fx_run @
     ([E_DeterminePathType ''/home/u/echo'', E_FileExists ''/home/u/echo''] @ warning @
      [E_DisplayBoolPrompt prompt_file [(''Path'', TString ''/home/u/echo'')],
       E_CreateExecutableCopy ''/home/u/echo'',
       E_NewRPCService, E_GetAndValidatePlugin ''/home/u/echo.tmp'',
       E_IsPluginInstalled ''echo'', E_Remove ''/home/u/echo.tmp''])"
    unfolding Execute_already_installed [OF exp p ne prep rpc val inst nf]
    by (simp add: s1_def confirmation_def nf echo2_def fx_run_def)
  have ev: "new_events fx_run (snd (Execute fx_packages ?cmd fx_run)) =
     [E_DeterminePathType ''/home/u/echo'', E_FileExists ''/home/u/echo''] @ warning @
     [E_DisplayBoolPrompt prompt_file [(''Path'', TString ''/home/u/echo'')],
      E_CreateExecutableCopy ''/home/u/echo'',
      E_NewRPCService, E_GetAndValidatePlugin ''/home/u/echo.tmp'',
      E_IsPluginInstalled ''echo'', E_Remove ''/home/u/echo.tmp'']"
    by (rule new_events_append [OF tr])
  show ?thesis
    unfolding ev by (simp add: states_of_def map_filter_simps warning_def)
qed

subsection \<open>Arguments that are neither a file nor a URL\<close>

text \<open>
  C8 (the code at a named plugin). The claim is that a string that is neither a local
  file nor a URL is treated as a named plugin to be looked up in a registered repository.
  For the usage line's own example, \<^verbatim>\<open>install-plugin -r My-Repo plugin-echo\<close>, the run
  consists of the classification and the removal of the empty staged path and ends in
  \<^verbatim>\<open>UnsupportedURLSchemeError\<close>: no repository is looked up, and the run is the same
  without the option.
\<close>

theorem named_plugin_not_looked_up:
  "RegisteredRepository ((fx_cmd ''plugin-echo'' False True True)
                           \<lparr>RegisteredRepository := ''My-Repo''\<rparr>) = ''My-Repo''
   \<and> Execute fx_packages ((fx_cmd ''plugin-echo'' False True True)
                            \<lparr>RegisteredRepository := ''My-Repo''\<rparr>) fx_run =
       (Returned (Some (UnsupportedURLSchemeError ''plugin-echo'')),
        \<lparr>env = fx_world, trace = [E_DeterminePathType ''plugin-echo'', E_Remove []]\<rparr>)
   \<and> Execute fx_packages ((fx_cmd ''plugin-echo'' False True True)
                            \<lparr>RegisteredRepository := ''My-Repo''\<rparr>) fx_run =
       Execute fx_packages (fx_cmd ''plugin-echo'' False True True) fx_run"
proof -
  let ?cmd = "(fx_cmd ''plugin-echo'' False True True)\<lparr>RegisteredRepository := ''My-Repo''\<rparr>"
  have exp: "Experimental (Config ?cmd)"
    and p: "''plugin-echo'' = PathURLOrPluginName (OptionalArgs ?cmd)"
    and ne: "''plugin-echo'' \<noteq> []"
    by (simp_all add: fx_cmd_def)
  have nofile: "DeterminePathType fx_packages ''plugin-echo'' (env fx_run) \<noteq> PluginFilePath"
    and nourl: "DeterminePathType fx_packages ''plugin-echo'' (env fx_run) \<noteq> PluginHTTPPath"
    by (simp_all add: fx_packages_def fx_DeterminePathType_def fx_run_def fx_world_def)
  have "Execute fx_packages ?cmd fx_run =
       (Returned (Some (UnsupportedURLSchemeError ''plugin-echo'')),
        \<lparr>env = fx_world, trace = [E_DeterminePathType ''plugin-echo'', E_Remove []]\<rparr>)"
    unfolding Execute_prepare_failed [OF exp p ne prepare_unsupported [OF nofile nourl]]
    by (simp add: os_Remove_run os_Remove_world_def fx_run_def)
  moreover have "RegisteredRepository ?cmd = ''My-Repo''"
    by simp
  moreover have "Execute fx_packages ?cmd fx_run =
                   Execute fx_packages (fx_cmd ''plugin-echo'' False True True) fx_run"
    by (rule RegisteredRepository_ignored)
  ultimately show ?thesis
    by (intro conjI)
qed

subsection \<open>The empty argument and the legacy gate\<close>

theorem Execute_required_argument_witness:
  "Execute fx_packages (fx_cmd [] False True True) fx_run =
     (Returned (Some (RequiredArgumentError ''PATH_URL_PLUGIN_NAME'')), fx_run)"
  using Execute_required_argument [of "fx_cmd [] False True True" fx_packages fx_run]
  by (simp add: fx_cmd_def)

text \<open>With the experimental flag off, the empty argument is handed to the legacy command.\<close>

theorem empty_argument_legacy_counterexample:
  "PathURLOrPluginName (OptionalArgs (fx_cmd [] False False True)) = []
   \<and> Execute fx_packages (fx_cmd [] False False True) fx_run =
       (Returned None, \<lparr>env = fx_world, trace = [E_oldCmd_Main]\<rparr>)"
  by (simp add: Execute_def emit_def fx_cmd_def fx_packages_def fx_run_def)

theorem Execute_legacy_witness:
  "Execute fx_packages (fx_cmd ''/home/u/echo'' False False True) fx_run =
     (Returned None, \<lparr>env = fx_world, trace = [E_oldCmd_Main]\<rparr>)"
  using Execute_legacy_when_not_experimental
          [of "fx_cmd ''/home/u/echo'' False False True" fx_packages fx_run]
  by (simp add: fx_cmd_def fx_packages_def fx_run_def)

subsection \<open>A download that fails\<close>

text \<open>
  The error of \<open>FetchPluginFromURL\<close> is dropped: whether the preparation returns depends
  on the returned path being on disk, and when it returns, it returns no error.
\<close>

lemma fetch_error_discarded:
  assumes "DeterminePathType pk p (env s) = PluginHTTPPath"
    and "fst (promptForInstallPlugin cmd prompt_url p s) = None"
    and "FetchPluginFromURL (Actor cmd) p (env s) = ((dp, ferr), w)"
  shows "fst (preparePluginForInstallation pk cmd p s) =
           (case files w dp of None \<Rightarrow> Panicked | Some sz \<Rightarrow> Returned (dp, None))"
  by (simp add: prepare_http_confirmed [OF assms refl] split: option.splits)

text \<open>
  C4 (the code at a failing download). The claim is that a failed fetch ends the attempt
  with the fetch error. With the force flag and a URL the network does not serve, the
  actor returns the empty path and its error: \<open>Execute\<close> panics on the \<^verbatim>\<open>nil\<close> file
  information instead of returning the error. With an actor that returns the path of the
  partial file next to its error, \<open>Execute\<close> goes on to validate and install the
  partial file and returns \<^verbatim>\<open>nil\<close>.
\<close>

theorem fetch_error_not_reported:
  "fst (FetchPluginFromURL (Actor (fx_cmd ''https://example.com/gone'' True True True))
          ''https://example.com/gone'' fx_world) = ([], Some (OtherError ''FetchError''))
   \<and> fst (Execute fx_packages (fx_cmd ''https://example.com/gone'' True True True) fx_run) = Panicked
   \<and> fst (FetchPluginFromURL (Actor (fx_cmd_partial ''https://example.com/gone''))
          ''https://example.com/gone'' fx_world) = (''/tmp/download'', Some (OtherError ''FetchError''))
   \<and> fst (Execute fx_packages (fx_cmd_partial ''https://example.com/gone'') fx_run) = Returned None
   \<and> filter registry_call
         (trace (snd (Execute fx_packages (fx_cmd_partial ''https://example.com/gone'') fx_run))) =
       [E_UninstallPlugin ''echo'', E_InstallPluginFromPath ''/tmp/download'' ''echo'']
   \<and> files (env (snd (Execute fx_packages (fx_cmd_partial ''https://example.com/gone'') fx_run)))
       ''/plugins/echo'' = Some 100"
proof -
  let ?url = "''https://example.com/gone''"
  have d: "DeterminePathType fx_packages ?url (env fx_run) = PluginHTTPPath"
    by (simp add: fx_packages_def fx_DeterminePathType_def)
  have a: "fst (FetchPluginFromURL (Actor (fx_cmd ?url True True True)) ?url fx_world)
             = ([], Some (OtherError ''FetchError''))
           \<and> fst (Execute fx_packages (fx_cmd ?url True True True) fx_run) = Panicked"
  proof -
    let ?cmd = "fx_cmd ?url True True True"
    have exp: "Experimental (Config ?cmd)" and p: "?url = PathURLOrPluginName (OptionalArgs ?cmd)"
      and ne: "?url \<noteq> []"
      by (simp_all add: fx_cmd_def)
    have c: "fst (promptForInstallPlugin ?cmd prompt_url ?url fx_run) = None"
      by (simp add: promptForInstallPlugin_result fx_cmd_def)
    have f: "FetchPluginFromURL (Actor ?cmd) ?url (env fx_run)
               = (([], Some (OtherError ''FetchError'')), fx_world)"
      by (simp add: fx_cmd_def fx_Actor_def fx_FetchPluginFromURL_def fx_remote_def fx_run_def)
    have "fst (preparePluginForInstallation fx_packages ?cmd ?url fx_run) = Panicked"
      by (simp add: prepare_http_confirmed [OF d c f refl] fx_world_def)
    then obtain s1 where "preparePluginForInstallation fx_packages ?cmd ?url fx_run = (Panicked, s1)"
      by (metis prod.collapse)
    from Execute_panicked [OF exp p ne this] f show ?thesis
      by (simp add: fx_run_def)
  qed
  have b: "fst (FetchPluginFromURL (Actor (fx_cmd_partial ?url)) ?url fx_world)
             = (''/tmp/download'', Some (OtherError ''FetchError''))
           \<and> fst (Execute fx_packages (fx_cmd_partial ?url) fx_run) = Returned None
           \<and> filter registry_call (trace (snd (Execute fx_packages (fx_cmd_partial ?url) fx_run))) =
               [E_UninstallPlugin ''echo'', E_InstallPluginFromPath ''/tmp/download'' ''echo'']
           \<and> files (env (snd (Execute fx_packages (fx_cmd_partial ?url) fx_run)))
               ''/plugins/echo'' = Some 100"
  proof -
    let ?cmd = "fx_cmd_partial ?url"
    let ?w = "fx_world\<lparr>files := (files fx_world)(''/tmp/download'' \<mapsto> 100)\<rparr>"
    let ?w4 = "?w\<lparr>files := (files ?w)(''/plugins/echo'' := None),
                   plugins := (plugins ?w)(''echo'' := None)\<rparr>"
    let ?w5 = "?w4\<lparr>files := (files ?w4)(''/plugins/echo'' \<mapsto> 100),
                    plugins := (plugins ?w4)(''echo'' \<mapsto> echo2)\<rparr>"
    let ?evs = "[E_DeterminePathType ?url] @ confirmation ?cmd prompt_url ?url @
               [E_DisplayText text_starting_download [], E_FetchPluginFromURL ?url,
                E_Stat ''/tmp/download'']"
    define s1 where "s1 =
       \<lparr>env = ?w,
        trace = trace fx_run @ ?evs @
                [E_DisplayText text_bytes_downloaded [(''Bytes'', TInt 100)]]\<rparr>"
    have exp: "Experimental (Config ?cmd)" and p: "?url = PathURLOrPluginName (OptionalArgs ?cmd)"
      and ne: "?url \<noteq> []" and force: "Force ?cmd"
      by (simp_all add: fx_cmd_partial_def fx_cmd_def)
    have c: "fst (promptForInstallPlugin ?cmd prompt_url ?url fx_run) = None"
      by (simp add: promptForInstallPlugin_result force)
    have f: "FetchPluginFromURL (Actor ?cmd) ?url (env fx_run)
               = ((''/tmp/download'', Some (OtherError ''FetchError'')), ?w)"
      by (simp add: fx_cmd_partial_def fx_partial_fetch_def fx_run_def)
    have prep: "preparePluginForInstallation fx_packages ?cmd ?url fx_run
                  = (Returned (''/tmp/download'', None), s1)"
      by (simp add: prepare_http_confirmed [OF d c f refl] s1_def)
    have rpc: "NewRPCService fx_packages (env s1) = ((RPCService 0, None), ?w)"
      by (simp add: s1_def fx_packages_def)
    have val: "GetAndValidatePlugin (Actor ?cmd) (RPCService 0) (Commands fx_packages)
                 ''/tmp/download'' ?w = ((echo2, None), ?w)"
      by (simp add: fx_defs)
    have inst: "IsPluginInstalled (Actor ?cmd) (Name echo2) ?w"
      by (simp add: fx_defs)
    have un: "UninstallPlugin (Actor ?cmd) (RPCService 0) (Name echo2) ?w = (None, ?w4)"
      by (simp add: fx_defs)
    have ins: "InstallPluginFromPath (Actor ?cmd) ''/tmp/download'' echo2 ?w4 = (None, ?w5)"
      by (simp add: fx_defs)
    note ex = Execute_forced [OF exp p ne prep rpc val inst force un ins]
    have "fst (Execute fx_packages ?cmd fx_run) = Returned None"
      by (simp add: ex)
    moreover have "filter registry_call (trace (snd (Execute fx_packages ?cmd fx_run))) =
               [E_UninstallPlugin ''echo'', E_InstallPluginFromPath ''/tmp/download'' ''echo'']"
      unfolding ex by (simp add: s1_def fx_run_def registry_call_confirmation echo2_def)
    moreover have "files (env (snd (Execute fx_packages ?cmd fx_run))) ''/plugins/echo'' = Some 100"
      by (simp add: ex os_Remove_world_def)
    moreover have "fst (FetchPluginFromURL (Actor ?cmd) ?url fx_world)
             = (''/tmp/download'', Some (OtherError ''FetchError''))"
      using f by (simp add: fx_run_def)
    ultimately show ?thesis
      by simp
  qed
  from a b show ?thesis
    by simp
qed

end
